theory Spec2Isabelle
  imports Main "HOL-Library.Char_ord" "HOL-Library.List_Lexorder"
begin

section \<open>The data directory, exceptions and observable effects\<close>

text \<open>
  The two scripts (\<^verbatim>\<open>download_data.py\<close>, \<^verbatim>\<open>run_complete_pipeline.py\<close>) only talk to
  their environment: the data directory, the Kaggle client, the clock, standard output and
  child processes. The model makes each of these explicit.

  An entry of the data directory is a regular file (with its size in bytes and, when the
  file is a valid zip archive, the members of the archive) or a directory.  A directory
  listing is an association list from names to entries; the first binding of a name is
  the entry, as \<open>map_of\<close> reads it, and the names of the listing are
  \<open>remdups (map fst d)\<close>. Names are single path components, as the three names of
  \<^verbatim>\<open>REQUIRED_FILES\<close> are.

  Scope. The data directory exists: \<^verbatim>\<open>download_data.py\<close> creates it when the module
  is loaded (line 26). \<^verbatim>\<open>print\<close>, \<^verbatim>\<open>time.sleep\<close>, \<^verbatim>\<open>Path.exists\<close>,
  \<^verbatim>\<open>Path.is_file\<close> and \<^verbatim>\<open>glob\<close> on the data directory return without raising. The
  calls that can fail are the test for the credential file (lines 42 to 45), the
  constructor of the Kaggle client, its authentication and its download (all four as the
  environment decides, with any kind of exception), \<^verbatim>\<open>stat\<close> and \<^verbatim>\<open>unlink\<close> on a
  missing path, the opening of an archive that is missing, a directory or no zip file,
  and the extraction of a member onto an entry of the other kind. Changes made to the
  directory by other processes during a run are not modelled.
\<close>

datatype entry =
    RegularFile nat "(string \<times> entry) list option"
  | Directory nat

type_synonym dir = "(string \<times> entry) list"

text \<open>\<^verbatim>\<open>p.stat().st_size\<close> of an entry and \<^verbatim>\<open>p.is_file()\<close>.\<close>

fun st_size :: "entry \<Rightarrow> nat" where
  "st_size (RegularFile n _) = n"
| "st_size (Directory n) = n"

fun entry_is_file :: "entry \<Rightarrow> bool" where
  "entry_is_file (RegularFile _ _) = True"
| "entry_is_file (Directory _) = False"

text \<open>
  A Python exception. \<open>Exception m\<close> is an instance of \<^verbatim>\<open>Exception\<close> with
  \<^verbatim>\<open>str(e) = m\<close>: the failures of the file system and of the archive library are of
  this kind, and so are the HTTP errors of the Kaggle client. \<open>SystemExit c\<close> and
  \<open>KeyboardInterrupt\<close> derive from \<^verbatim>\<open>BaseException\<close> only, so a handler
  \<^verbatim>\<open>except Exception\<close> lets them pass; the Kaggle client's \<^verbatim>\<open>authenticate\<close>
  ends in \<^verbatim>\<open>SystemExit(1)\<close> when it cannot read its credentials.
\<close>

datatype exn = Exception string | SystemExit int | KeyboardInterrupt

text \<open>What \<^verbatim>\<open>except Exception\<close> catches.\<close>

fun is_Exception :: "exn \<Rightarrow> bool" where
  "is_Exception (Exception _) = True"
| "is_Exception (SystemExit _) = False"
| "is_Exception KeyboardInterrupt = False"

text \<open>
  What a run does to the outside world, in order. \<open>PrintSizeMB t n\<close> is the line
  \<^verbatim>\<open>f"{t}{n / (1024 * 1024):.2f} MB"\<close>: the text before the number and the size in
  bytes (the rendering of the quotient as a decimal is left to the reader of the event).
  \<open>RunScript name rc\<close> is \<^verbatim>\<open>subprocess.run\<close> of the script \<open>name\<close>, with the
  \<^verbatim>\<open>returncode\<close> the child came back with.
\<close>

datatype event =
    Print string
  | PrintSizeMB string nat
  | Sleep nat
  | Authenticate
  | CompetitionDownloadFiles string
  | RunScript string int

record world =
  data_dir :: dir
  trace :: "event list"

definition emit :: "event \<Rightarrow> world \<Rightarrow> world" where
  "emit e w = w\<lparr>trace := trace w @ [e]\<rparr>"

definition emits :: "event list \<Rightarrow> world \<Rightarrow> world" where
  "emits es w = w\<lparr>trace := trace w @ es\<rparr>"

text \<open>A call that reaches the network: the client's authentication and its download.\<close>

fun is_network_call :: "event \<Rightarrow> bool" where
  "is_network_call Authenticate = True"
| "is_network_call (CompetitionDownloadFiles _) = True"
| "is_network_call _ = False"

fun is_download :: "event \<Rightarrow> bool" where
  "is_download (CompetitionDownloadFiles _) = True"
| "is_download _ = False"

subsection \<open>Strings\<close>

text \<open>\<^verbatim>\<open>sub in s\<close> on strings, \<^verbatim>\<open>sep.join(xs)\<close>, \<^verbatim>\<open>str(n)\<close> of a natural
  number, and the match of the pattern \<^verbatim>\<open>*.zip\<close>.\<close>

primrec contains :: "string \<Rightarrow> string \<Rightarrow> bool" where
  "contains [] sub = (sub = [])"
| "contains (c # cs) sub = (take (length sub) (c # cs) = sub \<or> contains cs sub)"

fun join :: "string \<Rightarrow> string list \<Rightarrow> string" where
  "join sep [] = []"
| "join sep [x] = x"
| "join sep (x # y # ys) = x @ sep @ join sep (y # ys)"

fun show_nat :: "nat \<Rightarrow> string" where
  "show_nat n =
     (if n < 10 then [''0123456789'' ! n]
      else show_nat (n div 10) @ [''0123456789'' ! (n mod 10)])"

declare show_nat.simps [simp del]

definition show_int :: "int \<Rightarrow> string" where
  "show_int i = (if i < 0 then ''-'' @ show_nat (nat (- i)) else show_nat (nat i))"

text \<open>\<^verbatim>\<open>str(e)\<close>.\<close>

fun str :: "exn \<Rightarrow> string" where
  "str (Exception m) = m"
| "str (SystemExit c) = show_int c"
| "str KeyboardInterrupt = []"

text \<open>
  \<^verbatim>\<open>sys.exit(n)\<close> for an integer \<open>n\<close>: the exit status the parent of the process
  sees is the low eight bits of \<open>n\<close> (POSIX), so codes 0 to 255 pass unchanged and
  \<open>-9\<close> becomes 247.
\<close>

definition sys_exit :: "int \<Rightarrow> nat" where
  "sys_exit n = nat (n mod 256)"

definition ends_with :: "string \<Rightarrow> string \<Rightarrow> bool" where
  "ends_with s suffix = (length suffix \<le> length s \<and> drop (length s - length suffix) s = suffix)"

text \<open>The UTF-8 bytes of the check mark U+2713, the warning sign U+26A0 and the cross
  mark U+274C that the scripts print.\<close>

definition check_mark :: string where
  "check_mark = [CHR 0xE2, CHR 0x9C, CHR 0x93]"

definition warning_sign :: string where
  "warning_sign = [CHR 0xE2, CHR 0x9A, CHR 0xA0]"

definition cross_mark :: string where
  "cross_mark = [CHR 0xE2, CHR 0x9D, CHR 0x8C]"

subsection \<open>Paths under the data directory\<close>

text \<open>\<^verbatim>\<open>(DATA_DIR / f).exists()\<close>: true for a regular file and for a directory alike.\<close>

definition path_exists :: "dir \<Rightarrow> string \<Rightarrow> bool" where
  "path_exists d f = (map_of d f \<noteq> None)"

text \<open>\<^verbatim>\<open>(DATA_DIR / f).is_file()\<close>.\<close>

definition path_is_file :: "dir \<Rightarrow> string \<Rightarrow> bool" where
  "path_is_file d f = (case map_of d f of Some e \<Rightarrow> entry_is_file e | None \<Rightarrow> False)"

text \<open>The path \<^verbatim>\<open>DATA_DIR / f\<close> as an error message quotes it.\<close>

definition quoted_path :: "string \<Rightarrow> string \<Rightarrow> string" where
  "quoted_path base f = [CHR 0x27] @ base @ ''/'' @ f @ [CHR 0x27]"

text \<open>\<^verbatim>\<open>(DATA_DIR / f).stat().st_size\<close>; a missing path raises
  \<^verbatim>\<open>FileNotFoundError\<close>.\<close>

definition stat_size :: "string \<Rightarrow> dir \<Rightarrow> string \<Rightarrow> exn + nat" where
  "stat_size base d f =
     (case map_of d f of
        Some e \<Rightarrow> Inr (st_size e)
      | None \<Rightarrow> Inl (Exception (''[Errno 2] No such file or directory: '' @ quoted_path base f)))"

text \<open>The size of the entry a name stands for, for statements about names that exist
  (0 where there is no entry).\<close>

definition file_size :: "dir \<Rightarrow> string \<Rightarrow> nat" where
  "file_size d f = (case map_of d f of Some e \<Rightarrow> st_size e | None \<Rightarrow> 0)"

section \<open>download_data.py\<close>

definition REQUIRED_FILES :: "string list" where
  "REQUIRED_FILES = [''data_train.hdf5'', ''data_val.hdf5'', ''data_test.hdf5'']"

subsection \<open>check_existing_files\<close>

text \<open>
  The two comprehensions of \<^verbatim>\<open>check_existing_files\<close>, over a manifest \<open>required\<close>:
  \<^verbatim>\<open>existing = [f for f in REQUIRED_FILES if (DATA_DIR / f).exists()]\<close> and
  \<^verbatim>\<open>missing = [f for f in REQUIRED_FILES if f not in existing]\<close>.
\<close>

definition existing_files :: "string list \<Rightarrow> dir \<Rightarrow> string list" where
  "existing_files required d = filter (path_exists d) required"

definition missing_files :: "string list \<Rightarrow> string list \<Rightarrow> string list" where
  "missing_files required existing = filter (\<lambda>f. f \<notin> set existing) required"

text \<open>
  The loops \<^verbatim>\<open>for f in ...: size_mb = (DATA_DIR / f).stat().st_size / ...; print(...)\<close>:
  one size line per name, stopping at the first name whose \<^verbatim>\<open>stat\<close> raises. The
  result is the exception, if any, and the lines printed until then.
\<close>

fun print_sizes :: "string \<Rightarrow> string \<Rightarrow> string list \<Rightarrow> dir \<Rightarrow> exn option \<times> event list" where
  "print_sizes base pre [] d = (None, [])"
| "print_sizes base pre (f # fs) d =
     (case stat_size base d f of
        Inl e \<Rightarrow> (Some e, [])
      | Inr n \<Rightarrow>
          (case print_sizes base pre fs d of
             (r, evs) \<Rightarrow> (r, PrintSizeMB (pre @ f @ '': '') n # evs)))"

text \<open>
  \<^verbatim>\<open>check_existing_files\<close> for a manifest \<open>required\<close> (the source's global
  \<^verbatim>\<open>REQUIRED_FILES\<close>) and the path \<open>base\<close> of the data directory. The result is
  the returned boolean, or the exception that leaves the function.
\<close>

definition check_existing_files_in ::
    "string \<Rightarrow> string list \<Rightarrow> world \<Rightarrow> (exn + bool) \<times> world" where
  "check_existing_files_in base required w =
     (let existing = existing_files required (data_dir w) in
      if length existing = length required then
        (let w1 = emit (Print (check_mark @ '' All data files already exist!'')) w in
         case print_sizes base ''  '' required (data_dir w1) of
           (Some e, evs) \<Rightarrow> (Inl e, emits evs w1)
         | (None, evs) \<Rightarrow> (Inr True, emits evs w1))
      else if existing \<noteq> [] then
        (let w1 = emit (Print (''Found '' @ show_nat (length existing) @ ''/'' @
                               show_nat (length required) @ '' files:'')) w in
         case print_sizes base (''  '' @ check_mark @ '' '') existing (data_dir w1) of
           (Some e, evs) \<Rightarrow> (Inl e, emits evs w1)
         | (None, evs) \<Rightarrow>
             (let missing = missing_files required existing in
              (Inr False, emit (Print (''Missing: '' @ join '', '' missing)) (emits evs w1))))
      else (Inr False, w))"

definition check_existing_files :: "string \<Rightarrow> world \<Rightarrow> (exn + bool) \<times> world" where
  "check_existing_files base w = check_existing_files_in base REQUIRED_FILES w"

subsection \<open>The environment of the download\<close>

text \<open>
  What the download script reads from its environment: whether the two optional imports
  succeeded, the paths it prints, whether \<^verbatim>\<open>~/.kaggle/kaggle.json\<close> exists, and how
  the Kaggle client answers. \<open>kaggle_json_exists\<close> is what lines 42 to 45 come to:
  the boolean of \<^verbatim>\<open>kaggle_json.exists()\<close>, or the exception that \<^verbatim>\<open>Path.home()\<close> or
  \<^verbatim>\<open>exists\<close> raises (a home directory that cannot be found, a \<^verbatim>\<open>~/.kaggle\<close> that
  may not be searched). \<open>new_api\<close> and \<open>authenticate\<close> are the exceptions
  raised by \<^verbatim>\<open>KaggleApi()\<close> and \<^verbatim>\<open>api.authenticate()\<close>, if any.
  \<open>competition_download_files env k d\<close> is the answer to the download request of
  attempt \<open>k\<close> (counted from 0) on the data directory \<open>d\<close>: the exception raised, if
  any, and the data directory the call leaves behind.
\<close>

record env =
  KAGGLE_AVAILABLE :: bool
  REQUESTS_AVAILABLE :: bool
  data_dir_path :: string
  kaggle_dir_path :: string
  kaggle_json_exists :: "exn + bool"
  new_api :: "exn option"
  authenticate :: "exn option"
  competition_download_files :: "nat \<Rightarrow> dir \<Rightarrow> exn option \<times> dir"

subsection \<open>Archive extraction\<close>

text \<open>\<^verbatim>\<open>DATA_DIR.glob("*.zip")\<close> and \<^verbatim>\<open>DATA_DIR.glob("*")\<close>: the names of the
  listing, read once when the loop starts. \<^verbatim>\<open>sorted\<close> of the paths is \<open>sort\<close> of
  the names: both compare the names character by character.\<close>

definition glob_all :: "dir \<Rightarrow> string list" where
  "glob_all d = remdups (map fst d)"

definition glob_zip :: "dir \<Rightarrow> string list" where
  "glob_zip d = filter (\<lambda>n. ends_with n ''.zip'') (glob_all d)"

text \<open>
  \<^verbatim>\<open>zipfile.ZipFile(zip_file, 'r')\<close>: the members of the archive, or the exception of
  a missing path, of a directory, or of a file that is not a zip archive.
\<close>

definition open_zip :: "string \<Rightarrow> dir \<Rightarrow> string \<Rightarrow> exn + dir" where
  "open_zip base d z =
     (case map_of d z of
        None \<Rightarrow> Inl (Exception (''[Errno 2] No such file or directory: '' @ quoted_path base z))
      | Some (Directory _) \<Rightarrow> Inl (Exception (''[Errno 21] Is a directory: '' @ quoted_path base z))
      | Some (RegularFile _ None) \<Rightarrow> Inl (Exception ''File is not a zip file'')
      | Some (RegularFile _ (Some members)) \<Rightarrow> Inr members)"

text \<open>\<^verbatim>\<open>zip_file.unlink()\<close>: removes a file, raises on a missing path or a directory.\<close>

definition unlink :: "string \<Rightarrow> dir \<Rightarrow> string \<Rightarrow> exn + dir" where
  "unlink base d z =
     (case map_of d z of
        None \<Rightarrow> Inl (Exception (''[Errno 2] No such file or directory: '' @ quoted_path base z))
      | Some (Directory _) \<Rightarrow> Inl (Exception (''[Errno 21] Is a directory: '' @ quoted_path base z))
      | Some (RegularFile _ _) \<Rightarrow> Inr (filter (\<lambda>p. fst p \<noteq> z) d))"

text \<open>
  \<^verbatim>\<open>zip_ref.extractall(DATA_DIR)\<close>: the members are written one after the other. A
  file member replaces a regular file of its name and raises \<^verbatim>\<open>IsADirectoryError\<close>
  on a directory of its name; a directory member is created unless a directory of its
  name is there and raises \<^verbatim>\<open>FileExistsError\<close> on a regular file of its name. What
  was written before the failure stays. The result is the exception, if any, and the data
  directory.
\<close>

fun extractall :: "string \<Rightarrow> dir \<Rightarrow> dir \<Rightarrow> exn option \<times> dir" where
  "extractall base [] d = (None, d)"
| "extractall base ((n, RegularFile sz content) # members) d =
     (case map_of d n of
        Some (Directory _) \<Rightarrow>
          (Some (Exception (''[Errno 21] Is a directory: '' @ quoted_path base n)), d)
      | _ \<Rightarrow> extractall base members ((n, RegularFile sz content) # d))"
| "extractall base ((n, Directory sz) # members) d =
     (case map_of d n of
        Some (RegularFile _ _) \<Rightarrow>
          (Some (Exception (''[Errno 17] File exists: '' @ quoted_path base n)), d)
      | Some (Directory _) \<Rightarrow> extractall base members d
      | None \<Rightarrow> extractall base members ((n, Directory sz) # d))"

text \<open>
  The extraction loop: for each archive name, print, open, extract the members into the
  data directory, delete the archive. The result is the exception that stopped the loop,
  if any, the data directory and the lines printed.
\<close>

fun extract_zips :: "string \<Rightarrow> string list \<Rightarrow> dir \<Rightarrow> exn option \<times> dir \<times> event list" where
  "extract_zips base [] d = (None, d, [])"
| "extract_zips base (z # zs) d =
     (let ev = Print (''Extracting '' @ z @ ''...'') in
      case open_zip base d z of
        Inl e \<Rightarrow> (Some e, d, [ev])
      | Inr members \<Rightarrow>
          (case extractall base members d of
             (Some e, d1) \<Rightarrow> (Some e, d1, [ev])
           | (None, d1) \<Rightarrow>
               (case unlink base d1 z of
                  Inl e \<Rightarrow> (Some e, d1, [ev])
                | Inr d' \<Rightarrow>
                    (case extract_zips base zs d' of
                       (r, d'', evs) \<Rightarrow> (r, d'', ev # evs)))))"

subsection \<open>download_from_kaggle\<close>

definition competition :: string where
  "competition = ''brain-to-text-25''"

definition max_retries :: nat where
  "max_retries = 5"

text \<open>\<^verbatim>\<open>wait_time = min(2 ** attempt, 60)\<close>, for the 0-based \<open>attempt\<close>.\<close>

definition wait_time :: "nat \<Rightarrow> nat" where
  "wait_time attempt = min (2 ^ attempt) 60"

text \<open>\<^verbatim>\<open>all((DATA_DIR / f).exists() for f in REQUIRED_FILES)\<close>, for a manifest.\<close>

definition all_found_in :: "string list \<Rightarrow> dir \<Rightarrow> bool" where
  "all_found_in required d = list_all (path_exists d) required"

text \<open>The listing printed after an incomplete download: the regular files among the
  sorted names, each with its size.\<close>

fun list_files :: "string \<Rightarrow> string list \<Rightarrow> dir \<Rightarrow> exn option \<times> event list" where
  "list_files base [] d = (None, [])"
| "list_files base (f # fs) d =
     (if path_is_file d f then
        (case stat_size base d f of
           Inl e \<Rightarrow> (Some e, [])
         | Inr n \<Rightarrow>
             (case list_files base fs d of
                (r, evs) \<Rightarrow> (r, PrintSizeMB (''  '' @ f @ '': '') n # evs)))
      else list_files base fs d)"

text \<open>
  The \<^verbatim>\<open>try\<close> block of one iteration of the retry loop (lines 64 to 91): the backoff
  sleep on every attempt but the first, the download request, the extraction, the check.
  \<open>Inr b\<close> is \<^verbatim>\<open>return b\<close>, \<open>Inl e\<close> an exception raised inside the block.
\<close>

definition attempt_try :: "env \<Rightarrow> nat \<Rightarrow> world \<Rightarrow> (exn + bool) \<times> world" where
  "attempt_try env attempt w =
     (let w1 = (if attempt > 0 then
                  emits [Print (''Waiting '' @ show_nat (wait_time attempt) @
                                '' seconds before retry '' @ show_nat (attempt + 1) @ ''/'' @
                                show_nat max_retries @ ''...''),
                         Sleep (wait_time attempt)] w
                else w);
          w2 = emit (CompetitionDownloadFiles competition) w1
      in case competition_download_files env attempt (data_dir w2) of
           (Some e, d) \<Rightarrow> (Inl e, w2\<lparr>data_dir := d\<rparr>)
         | (None, d) \<Rightarrow>
             (case extract_zips (data_dir_path env) (glob_zip d) d of
                (Some e, d', evs) \<Rightarrow> (Inl e, emits evs (w2\<lparr>data_dir := d'\<rparr>))
              | (None, d', evs) \<Rightarrow>
                  (let w3 = emits evs (w2\<lparr>data_dir := d'\<rparr>);
                       all_found = all_found_in REQUIRED_FILES d'
                   in if all_found then
                        (Inr True,
                         emit (Print (check_mark @ '' All data files downloaded successfully!'')) w3)
                      else
                        (let w4 = emit (Print ([CHR 0x0A] @ ''Files in data directory:'')) w3 in
                         case list_files (data_dir_path env) (sort (glob_all d')) d' of
                           (Some e, evs') \<Rightarrow> (Inl e, emits evs' w4)
                         | (None, evs') \<Rightarrow>
                             (Inr False,
                              emit (Print ([CHR 0x0A] @
                                           ''Some required files are missing after download''))
                                (emits evs' w4))))))"

text \<open>The test of the handler at line 94.\<close>

definition rate_limited :: "exn \<Rightarrow> bool" where
  "rate_limited e = (contains (str e) ''429'' \<or> contains (str e) ''Too Many Requests'')"

text \<open>How one iteration of the loop ends: \<^verbatim>\<open>return b\<close>, \<^verbatim>\<open>continue\<close>, or an
  exception that leaves the loop: one that \<^verbatim>\<open>except Exception\<close> (line 93) does not
  catch, or one that it catches and re-raises (line 103).\<close>

datatype flow = Return bool | Continue | Raise exn

definition attempt_body :: "env \<Rightarrow> nat \<Rightarrow> world \<Rightarrow> flow \<times> world" where
  "attempt_body env attempt w =
     (case attempt_try env attempt w of
        (Inr b, w') \<Rightarrow> (Return b, w')
      | (Inl e, w') \<Rightarrow>
          if is_Exception e then
            if rate_limited e then
              if attempt < max_retries - 1 then
                (Continue, emit (Print ''Rate limited. Retrying...'') w')
              else
                (Return False,
                 emits [Print (''Rate limited after '' @ show_nat max_retries @ '' attempts.''),
                        Print ''Please wait a few minutes and try again, or download manually.'']
                   w')
            else (Raise e, w')
          else (Raise e, w'))"

text \<open>\<^verbatim>\<open>for attempt in range(max_retries)\<close>, over the list of attempt numbers still
  to run; \<open>Continue\<close> from the empty list is the loop running off its end.\<close>

fun retry_loop :: "env \<Rightarrow> nat list \<Rightarrow> world \<Rightarrow> flow \<times> world" where
  "retry_loop env [] w = (Continue, w)"
| "retry_loop env (attempt # rest) w =
     (case attempt_body env attempt w of
        (Continue, w') \<Rightarrow> retry_loop env rest w'
      | (Return b, w') \<Rightarrow> (Return b, w')
      | (Raise e, w') \<Rightarrow> (Raise e, w'))"

text \<open>The outer \<^verbatim>\<open>try\<close> block (lines 52 to 105).\<close>

definition kaggle_try :: "env \<Rightarrow> world \<Rightarrow> (exn + bool) \<times> world" where
  "kaggle_try env w =
     (case new_api env of
        Some e \<Rightarrow> (Inl e, w)
      | None \<Rightarrow>
          (let w1 = emit Authenticate w in
           case authenticate env of
             Some e \<Rightarrow> (Inl e, w1)
           | None \<Rightarrow>
               (let w2 = emits [Print ''Authenticated with Kaggle API'',
                                Print (''Downloading data from competition: '' @ competition)] w1
                in case retry_loop env [0..<max_retries] w2 of
                     (Return b, w3) \<Rightarrow> (Inr b, w3)
                   | (Raise e, w3) \<Rightarrow> (Inl e, w3)
                   | (Continue, w3) \<Rightarrow> (Inr False, w3))))"

text \<open>The whole function. \<open>Inr b\<close> is the boolean returned to the caller, \<open>Inl e\<close>
  an exception that reaches the caller: one raised before the \<^verbatim>\<open>try\<close> (lines 42 to
  45), or one that \<^verbatim>\<open>except Exception\<close> (line 107) does not catch.\<close>

definition download_from_kaggle :: "env \<Rightarrow> world \<Rightarrow> (exn + bool) \<times> world" where
  "download_from_kaggle env w =
     (if \<not> KAGGLE_AVAILABLE env then
        (Inr False, emit (Print ''Kaggle API not available. Install with: pip install kaggle'') w)
      else
        (case kaggle_json_exists env of
           Inl e \<Rightarrow> (Inl e, w)
         | Inr False \<Rightarrow>
             (Inr False,
              emits [Print ''Kaggle credentials not found.'',
                     Print (''Please download kaggle.json from https://www.kaggle.com/settings '' @
                            ''and place it in:''),
                     Print (''  '' @ kaggle_dir_path env)] w)
         | Inr True \<Rightarrow>
             (case kaggle_try env w of
                (Inr b, w') \<Rightarrow> (Inr b, w')
              | (Inl e, w') \<Rightarrow>
                  if is_Exception e then
                    (Inr False, emit (Print (''Error downloading from Kaggle: '' @ str e)) w')
                  else (Inl e, w'))))"

subsection \<open>download_from_dryad and main\<close>

definition download_from_dryad :: "env \<Rightarrow> world \<Rightarrow> bool \<times> world" where
  "download_from_dryad env w =
     (if \<not> REQUESTS_AVAILABLE env then
        (False,
         emit (Print ''Requests library not available. Install with: pip install requests'') w)
      else
        (False,
         emits [Print ''Attempting to download from Dryad repository...'',
                Print ''Note: Dryad may require manual download from:'',
                Print ''  https://datadryad.org/dataset/doi:10.5061/dryad.dncjsxm85''] w))"

definition manual_instructions :: "env \<Rightarrow> event list" where
  "manual_instructions env =
     [Print ([CHR 0x0A] @ replicate 60 (CHR ''='')),
      Print ''MANUAL DOWNLOAD REQUIRED'',
      Print (replicate 60 (CHR ''='')),
      Print ([CHR 0x0A] @ ''Please download the data files manually:''),
      Print ([CHR 0x0A] @ ''1. Kaggle Competition:''),
      Print ''   https://www.kaggle.com/competitions/brain-to-text-25/data'',
      Print ''   - Accept competition rules'',
      Print ''   - Download data_train.hdf5, data_val.hdf5, data_test.hdf5'',
      Print ([CHR 0x0A] @ ''2. Or from Dryad:''),
      Print ''   https://datadryad.org/dataset/doi:10.5061/dryad.dncjsxm85'',
      Print ([CHR 0x0A] @ ''3. Place the files in:''),
      Print (''   '' @ data_dir_path env),
      Print ([CHR 0x0A] @ ''Then run this script again to verify.'')]"

text \<open>\<^verbatim>\<open>main\<close>: \<open>Inr n\<close> is \<^verbatim>\<open>return n\<close>.\<close>

definition main :: "env \<Rightarrow> world \<Rightarrow> (exn + int) \<times> world" where
  "main env w =
     (let w1 = emits [Print (replicate 60 (CHR ''='')),
                      Print ''Brain-to-Text Data Download'',
                      Print (replicate 60 (CHR ''=''))] w
      in case check_existing_files (data_dir_path env) w1 of
           (Inl e, w2) \<Rightarrow> (Inl e, w2)
         | (Inr True, w2) \<Rightarrow> (Inr 0, w2)
         | (Inr False, w2) \<Rightarrow>
             (let w3 = emits [Print ([CHR 0x0A] @ ''Data directory: '' @ data_dir_path env),
                              Print (''Required files: '' @ join '', '' REQUIRED_FILES),
                              Print ([CHR 0x0A] @ ''[Method 1] Trying Kaggle API...'')] w2
              in case download_from_kaggle env w3 of
                   (Inl e, w4) \<Rightarrow> (Inl e, w4)
                 | (Inr True, w4) \<Rightarrow> (Inr 0, w4)
                 | (Inr False, w4) \<Rightarrow>
                     (let w5 = emit (Print ([CHR 0x0A] @ ''[Method 2] Trying Dryad...'')) w4
                      in case download_from_dryad env w5 of
                           (True, w6) \<Rightarrow> (Inr 0, w6)
                         | (False, w6) \<Rightarrow> (Inr 1, emits (manual_instructions env) w6))))"

text \<open>\<^verbatim>\<open>sys.exit(main())\<close>: the exit status of the script, or the exception that
  leaves \<^verbatim>\<open>main\<close> and ends the interpreter.\<close>

definition download_data_script :: "env \<Rightarrow> world \<Rightarrow> (exn + nat) \<times> world" where
  "download_data_script env w =
     (case main env w of
        (Inr n, w') \<Rightarrow> (Inr (sys_exit n), w')
      | (Inl e, w') \<Rightarrow> (Inl e, w'))"

section \<open>run_complete_pipeline.py\<close>

text \<open>
  What the runner reads from its environment: the path it prints, whether the two scripts
  exist beside it, and what running each as a child process does: the return code
  \<^verbatim>\<open>result.returncode\<close> and the data directory the child leaves behind.
\<close>

record runner_env =
  runner_data_dir_path :: string
  download_script_exists :: bool
  run_download_script :: "dir \<Rightarrow> int \<times> dir"
  pipeline_script_exists :: bool
  run_pipeline_script :: "dir \<Rightarrow> int \<times> dir"

text \<open>\<^verbatim>\<open>all((DATA_DIR / f"data_{split}.hdf5").exists() for split in ["train", "val", "test"])\<close>\<close>

definition all_exist :: "dir \<Rightarrow> bool" where
  "all_exist d =
     list_all (\<lambda>split. path_exists d (''data_'' @ split @ ''.hdf5'')) [''train'', ''val'', ''test'']"

text \<open>Step 0 (lines 29 to 58): \<open>Some c\<close> is the exit status \<open>c\<close> of
  \<^verbatim>\<open>sys.exit\<close>, \<open>None\<close> lets the module run on.\<close>

definition step0 :: "runner_env \<Rightarrow> world \<Rightarrow> nat option \<times> world" where
  "step0 renv w =
     (let w1 = emit (Print ([CHR 0x0A] @ ''[STEP 0] Checking for data files...'')) w in
      if download_script_exists renv then
        (case run_download_script renv (data_dir w1) of
           (returncode, d) \<Rightarrow>
             (let w2 = (emit (RunScript ''download_data.py'' returncode) w1)\<lparr>data_dir := d\<rparr> in
              if returncode \<noteq> 0 then
                (let w3 = emits
                       [Print ([CHR 0x0A] @ warning_sign @
                               '' Data download failed or files not found.''),
                        Print (''Please ensure data files are in: '' @ runner_data_dir_path renv),
                        Print ''Required: data_train.hdf5, data_val.hdf5, data_test.hdf5''] w2
                 in if \<not> all_exist (data_dir w3) then
                      (Some (sys_exit 1),
                       emits [Print ([CHR 0x0A] @ cross_mark @
                                     '' Cannot proceed without data files.''),
                              Print ([CHR 0x0A] @ ''To download manually:''),
                              Print (''1. Go to: https://www.kaggle.com/competitions/'' @
                                     ''brain-to-text-25/data''),
                              Print ''2. Accept competition rules'',
                              Print ''3. Download the HDF5 files'',
                              Print (''4. Place them in: '' @ runner_data_dir_path renv)] w3)
                    else
                      (None, emit (Print (check_mark @ '' Found data files, proceeding...'')) w3))
              else (None, w2)))
      else if \<not> all_exist (data_dir w1) then
        (Some (sys_exit 1),
         emit (Print (cross_mark @ '' Data files not found. Please download them first.'')) w1)
      else (None, w1))"

text \<open>Step 1 (lines 60 to 68): always ends in \<^verbatim>\<open>sys.exit\<close>; the result is the exit
  status of the runner.\<close>

definition step1 :: "runner_env \<Rightarrow> world \<Rightarrow> nat \<times> world" where
  "step1 renv w =
     (let w1 = emit (Print ([CHR 0x0A] @
                            ''[STEP 1] Running preprocessing, training, and inference...'')) w
      in if pipeline_script_exists renv then
           (case run_pipeline_script renv (data_dir w1) of
              (returncode, d) \<Rightarrow>
                (sys_exit returncode,
                 (emit (RunScript ''run_full_pipeline.py'' returncode) w1)\<lparr>data_dir := d\<rparr>))
         else (sys_exit 1, emit (Print (cross_mark @ '' Pipeline script not found!'')) w1))"

text \<open>The module body: the exit status of the runner and the world it leaves.\<close>

definition run_complete_pipeline :: "runner_env \<Rightarrow> world \<Rightarrow> nat \<times> world" where
  "run_complete_pipeline renv w =
     (let w1 = emits [Print (replicate 70 (CHR ''='')),
                      Print ''BRAIN-TO-TEXT COMPLETE PIPELINE'',
                      Print (replicate 70 (CHR ''=''))] w
      in case step0 renv w1 of
           (Some c, w2) \<Rightarrow> (c, w2)
         | (None, w2) \<Rightarrow> step1 renv w2)"

section \<open>Observations on a trace\<close>

text \<open>The events a run has added to the trace it started from.\<close>

definition new_events :: "world \<Rightarrow> world \<Rightarrow> event list" where
  "new_events w w' = drop (length (trace w)) (trace w')"

text \<open>The sleeps and download requests of a trace, in order.\<close>

fun is_sleep :: "event \<Rightarrow> bool" where
  "is_sleep (Sleep _) = True"
| "is_sleep _ = False"

definition sleeps_and_downloads :: "event list \<Rightarrow> event list" where
  "sleeps_and_downloads es = filter (\<lambda>e. is_sleep e \<or> is_download e) es"

text \<open>What the claimed backoff schedule puts in front of attempt \<open>k\<close> (counted from 1)
  and the attempt's request: no sleep before the first, \<open>min (2 ^ (k - 1)) 60\<close> seconds
  before any other.\<close>

definition scheduled_attempt :: "nat \<Rightarrow> event list" where
  "scheduled_attempt k =
     (if k = 1 then [] else [Sleep (min (2 ^ (k - 1)) 60)]) @ [CompetitionDownloadFiles competition]"

section \<open>Example environments\<close>

text \<open>A world with an empty data directory and nothing done yet, and an environment in
  which the client library and the credential file are present, authentication succeeds
  and every download request is answered with HTTP 429. The examples below vary it.\<close>

definition empty_world :: world where
  "empty_world = \<lparr>data_dir = [], trace = []\<rparr>"

definition example_env :: env where
  "example_env =
     \<lparr>KAGGLE_AVAILABLE = True,
      REQUESTS_AVAILABLE = True,
      data_dir_path = ''/repo/data'',
      kaggle_dir_path = ''/home/user/.kaggle'',
      kaggle_json_exists = Inr True,
      new_api = None,
      authenticate = None,
      competition_download_files =
        (\<lambda>k d. (Some (Exception ''429 Client Error: Too Many Requests''), d))\<rparr>"

text \<open>Every download request is refused with an error that is no rate limit.\<close>

definition refusing_env :: env where
  "refusing_env =
     example_env\<lparr>competition_download_files :=
       (\<lambda>k d. (Some (Exception ''Connection refused''), d))\<rparr>"

text \<open>The first request is rate limited, the second is refused.\<close>

definition flaky_env :: env where
  "flaky_env =
     example_env\<lparr>competition_download_files :=
       (\<lambda>k d. if k = 0 then (Some (Exception ''429 Client Error: Too Many Requests''), d)
              else (Some (Exception ''Connection refused''), d))\<rparr>"

text \<open>The request succeeds and leaves an archive that holds two of the three files.\<close>

definition partial_env :: env where
  "partial_env =
     example_env\<lparr>competition_download_files :=
       (\<lambda>k d. (None,
                (''brain-to-text-25.zip'',
                 RegularFile 900
                   (Some [(''data_val.hdf5'', RegularFile 300 None),
                          (''data_train.hdf5'', RegularFile 500 None)])) # d))\<rparr>"

text \<open>The request succeeds and leaves the three files.\<close>

definition complete_env :: env where
  "complete_env =
     example_env\<lparr>competition_download_files :=
       (\<lambda>k d. (None,
                [(''data_train.hdf5'', RegularFile 500 None),
                 (''data_val.hdf5'', RegularFile 300 None),
                 (''data_test.hdf5'', RegularFile 200 None)] @ d))\<rparr>"


text \<open>Neither the client library nor the credential file is there.\<close>

definition bare_env :: env where
  "bare_env = example_env\<lparr>KAGGLE_AVAILABLE := False, kaggle_json_exists := Inr False\<rparr>"

text \<open>A runner whose download script is missing while the data files are in place, and
  whose pipeline script exits with code 7.\<close>

definition example_runner_env :: runner_env where
  "example_runner_env =
     \<lparr>runner_data_dir_path = ''/repo/data'',
      download_script_exists = False,
      run_download_script = (\<lambda>d. (1, d)),
      pipeline_script_exists = True,
      run_pipeline_script = (\<lambda>d. (7, d))\<rparr>"

text \<open>The same runner with a pipeline that is killed by signal 9:
  \<^verbatim>\<open>subprocess.run\<close> reports the return code \<open>-9\<close>.\<close>

definition killed_runner_env :: runner_env where
  "killed_runner_env = example_runner_env\<lparr>run_pipeline_script := (\<lambda>d. (- 9, d))\<rparr>"

definition complete_world :: world where
  "complete_world =
     \<lparr>data_dir = [(''data_train.hdf5'', RegularFile 500 None),
                  (''data_val.hdf5'', RegularFile 300 None),
                  (''data_test.hdf5'', RegularFile 200 None)],
      trace = []\<rparr>"

section \<open>The verifier: check_existing_files\<close>

lemma length_filter_eq_iff: "(length (filter P xs) = length xs) = (\<forall>x\<in>set xs. P x)"
proof (induction xs)
  case Nil
  show ?case by simp
next
  case (Cons a xs)
  have le: "length (filter P xs) \<le> length xs" by (rule length_filter_le)
  show ?case
  proof (cases "P a")
    case True
    with Cons show ?thesis by simp
  next
    case False
    from le have "length (filter P xs) \<noteq> Suc (length xs)" by arith
    with False show ?thesis by simp
  qed
qed

lemma print_sizes_all_exist:
  "\<forall>f\<in>set fs. path_exists d f \<Longrightarrow>
     print_sizes base pre fs d =
       (None, map (\<lambda>f. PrintSizeMB (pre @ f @ '': '') (file_size d f)) fs)"
  by (induction fs) (auto simp: path_exists_def stat_size_def file_size_def split: option.splits)

lemma check_existing_files_in_true_iff: "fst (check_existing_files_in base M w) = Inr True \<longleftrightarrow> (\<forall>f\<in>set M. path_exists (data_dir w) f)"
proof (cases "\<forall>f\<in>set M. path_exists (data_dir w) f")
  case True
  then have "existing_files M (data_dir w) = M" by (simp add: existing_files_def)
  with True show ?thesis
    by (simp add: check_existing_files_in_def Let_def print_sizes_all_exist emit_def)
next
  case False
  then have ne: "length (existing_files M (data_dir w)) \<noteq> length M"
    by (simp add: existing_files_def length_filter_eq_iff)
  have ex: "\<forall>f\<in>set (existing_files M (data_dir w)). path_exists (data_dir w) f"
    by (simp add: existing_files_def)
  from False ne show ?thesis
    by (simp add: check_existing_files_in_def Let_def print_sizes_all_exist[OF ex] emit_def)
qed

text \<open>The \<^verbatim>\<open>stat\<close> calls of \<^verbatim>\<open>check_existing_files\<close> are made on names that exist,
  so the function always returns.\<close>

lemma check_existing_files_in_returns:
  "\<exists>b. fst (check_existing_files_in base M w) = Inr b"
proof -
  have ex: "\<forall>f\<in>set (existing_files M (data_dir w)). path_exists (data_dir w) f"
    by (simp add: existing_files_def)
  show ?thesis
  proof (cases "length (existing_files M (data_dir w)) = length M")
    case True
    then have "\<forall>f\<in>set M. path_exists (data_dir w) f"
      by (simp add: existing_files_def length_filter_eq_iff)
    with True show ?thesis
      by (auto simp: check_existing_files_in_def Let_def print_sizes_all_exist emit_def)
  next
    case False
    then show ?thesis
      by (auto simp: check_existing_files_in_def Let_def print_sizes_all_exist [OF ex] emit_def)
  qed
qed

lemma missing_files_eq_filter: "missing_files M (existing_files M d) = filter (\<lambda>f. \<not> path_exists d f) M"
  by (auto simp: missing_files_def existing_files_def intro: filter_cong)


lemma path_exists_cases:
  "path_exists d f = (path_is_file d f \<or> (\<exists>n. map_of d f = Some (Directory n)))"
  by (cases "map_of d f"; simp add: path_exists_def path_is_file_def)
     (metis entry.exhaust entry_is_file.simps)

text \<open>
  Claim C2, as the code has it: the all-present check of \<^verbatim>\<open>check_existing_files\<close> (and
  the expression \<^verbatim>\<open>all_found\<close> of \<^verbatim>\<open>download_from_kaggle\<close>) is true if and only if
  every name of the manifest exists directly under the data directory, where a name exists
  when it is a regular file or a directory: the test is \<^verbatim>\<open>Path.exists\<close>, which does not
  look at the type of the entry. A name that does not exist makes the check false.
\<close>

theorem all_present_iff_every_name_exists:
  "(fst (check_existing_files_in base M w) = Inr True) = (\<forall>f\<in>set M. path_exists (data_dir w) f)
   \<and> all_found_in M d = (\<forall>f\<in>set M. path_exists d f)
   \<and> path_exists d f = (path_is_file d f \<or> (\<exists>n. map_of d f = Some (Directory n)))"
proof (intro conjI)
  show "(fst (check_existing_files_in base M w) = Inr True) = (\<forall>f\<in>set M. path_exists (data_dir w) f)"
    by (rule check_existing_files_in_true_iff)
  show "all_found_in M d = (\<forall>f\<in>set M. path_exists d f)"
    by (simp add: all_found_in_def list_all_iff)
  show "path_exists d f = (path_is_file d f \<or> (\<exists>n. map_of d f = Some (Directory n)))"
    by (rule path_exists_cases)
qed

theorem all_present_iff_every_name_exists_witness:
  "fst (check_existing_files_in ''data'' [''a.bin'', ''b.bin'']
          \<lparr>data_dir = [(''b.bin'', Directory 4096), (''a.bin'', RegularFile 7 None)], trace = []\<rparr>)
     = Inr True
   \<and> path_exists [(''b.bin'', Directory 4096), (''a.bin'', RegularFile 7 None)] ''a.bin''
   \<and> path_exists [(''b.bin'', Directory 4096), (''a.bin'', RegularFile 7 None)] ''b.bin''
   \<and> \<not> path_is_file [(''b.bin'', Directory 4096), (''a.bin'', RegularFile 7 None)] ''b.bin''"
  using all_present_iff_every_name_exists
      [of "''data''" "[''a.bin'', ''b.bin'']"
          "\<lparr>data_dir = [(''b.bin'', Directory 4096), (''a.bin'', RegularFile 7 None)], trace = []\<rparr>"
          "[]" "[]"]
  by (simp add: path_exists_def path_is_file_def)

text \<open>
  Claim C2 as stated fails: with \<^verbatim>\<open>data_train.hdf5\<close> present only as a directory,
  both checks are true although the name is not a regular file.
\<close>

theorem all_present_regular_file_counterexample:
  "fst (check_existing_files ''data''
          \<lparr>data_dir = [(''data_train.hdf5'', Directory 4096),
                       (''data_val.hdf5'', RegularFile 10 None),
                       (''data_test.hdf5'', RegularFile 10 None)], trace = []\<rparr>) = Inr True
   \<and> all_found_in REQUIRED_FILES
         [(''data_train.hdf5'', Directory 4096),
          (''data_val.hdf5'', RegularFile 10 None),
          (''data_test.hdf5'', RegularFile 10 None)]
   \<and> \<not> path_is_file
         [(''data_train.hdf5'', Directory 4096),
          (''data_val.hdf5'', RegularFile 10 None),
          (''data_test.hdf5'', RegularFile 10 None)] ''data_train.hdf5''"
  by (simp add: check_existing_files_def check_existing_files_in_def REQUIRED_FILES_def
        existing_files_def path_exists_def path_is_file_def stat_size_def all_found_in_def
        emit_def emits_def Let_def)

text \<open>
  Claim C8: for every manifest and data directory, the list \<^verbatim>\<open>missing\<close> of
  \<^verbatim>\<open>check_existing_files\<close> is exactly the manifest entries that do not exist, in manifest
  order; and when some but not all entries exist, the function returns \<open>False\<close> and its
  last line is that list, joined by commas. With the manifest a.bin, b.bin, c.bin and only
  a.bin present the list is b.bin, c.bin.
\<close>

theorem missing_lists_absent_entries_in_order:
  "missing_files M (existing_files M d) = filter (\<lambda>f. \<not> path_exists d f) M
   \<and> (existing_files M (data_dir w) \<noteq> [] \<and> (\<exists>f\<in>set M. \<not> path_exists (data_dir w) f) \<longrightarrow>
        fst (check_existing_files_in base M w) = Inr False
        \<and> last (trace (snd (check_existing_files_in base M w)))
            = Print (''Missing: '' @ join '', '' (filter (\<lambda>f. \<not> path_exists (data_dir w) f) M)))"
proof (intro conjI impI)
  show "missing_files M (existing_files M d) = filter (\<lambda>f. \<not> path_exists d f) M"
    by (rule missing_files_eq_filter)
next
  assume a: "existing_files M (data_dir w) \<noteq> [] \<and> (\<exists>f\<in>set M. \<not> path_exists (data_dir w) f)"
  then have ne: "length (existing_files M (data_dir w)) \<noteq> length M"
    by (simp add: existing_files_def length_filter_eq_iff)
  have ex: "\<forall>f\<in>set (existing_files M (data_dir w)). path_exists (data_dir w) f"
    by (simp add: existing_files_def)
  from a ne show "fst (check_existing_files_in base M w) = Inr False"
    by (simp add: check_existing_files_in_def Let_def print_sizes_all_exist[OF ex] emit_def)
  from a ne show "last (trace (snd (check_existing_files_in base M w)))
            = Print (''Missing: '' @ join '', '' (filter (\<lambda>f. \<not> path_exists (data_dir w) f) M))"
    by (simp add: check_existing_files_in_def Let_def print_sizes_all_exist[OF ex] emit_def emits_def missing_files_eq_filter)
qed

theorem missing_lists_absent_entries_in_order_witness:
  "missing_files [''a.bin'', ''b.bin'', ''c.bin'']
      (existing_files [''a.bin'', ''b.bin'', ''c.bin''] [(''a.bin'', RegularFile 1572864 None)])
     = [''b.bin'', ''c.bin'']
   \<and> existing_files [''a.bin'', ''b.bin'', ''c.bin''] [(''a.bin'', RegularFile 1572864 None)] \<noteq> []
   \<and> (\<exists>f\<in>set [''a.bin'', ''b.bin'', ''c.bin''].
         \<not> path_exists [(''a.bin'', RegularFile 1572864 None)] f)
   \<and> fst (check_existing_files_in ''data'' [''a.bin'', ''b.bin'', ''c.bin'']
            \<lparr>data_dir = [(''a.bin'', RegularFile 1572864 None)], trace = []\<rparr>) = Inr False
   \<and> last (trace (snd (check_existing_files_in ''data'' [''a.bin'', ''b.bin'', ''c.bin'']
            \<lparr>data_dir = [(''a.bin'', RegularFile 1572864 None)], trace = []\<rparr>)))
       = Print ''Missing: b.bin, c.bin''"
  using missing_lists_absent_entries_in_order
      [of "[''a.bin'', ''b.bin'', ''c.bin'']" "[(''a.bin'', RegularFile 1572864 None)]"
          "\<lparr>data_dir = [(''a.bin'', RegularFile 1572864 None)], trace = []\<rparr>" "''data''"]
  by (simp add: existing_files_def path_exists_def)

section \<open>The primary fetch: download_from_kaggle\<close>

lemma trace_emit [simp]: "trace (emit e w) = trace w @ [e]"
  by (simp add: emit_def)
lemma data_dir_emit [simp]: "data_dir (emit e w) = data_dir w"
  by (simp add: emit_def)
lemma trace_emits [simp]: "trace (emits es w) = trace w @ es"
  by (simp add: emits_def)
lemma data_dir_emits [simp]: "data_dir (emits es w) = data_dir w"
  by (simp add: emits_def)

lemma new_events_append [simp]: "trace w' = trace w @ es \<Longrightarrow> new_events w w' = es"
  by (simp add: new_events_def)

text \<open>Values the examples need.\<close>

lemma show_nat_values:
  "show_nat 2 = ''2''" "show_nat 3 = ''3''" "show_nat 4 = ''4''" "show_nat 5 = ''5''"
  "show_nat 8 = ''8''" "show_nat 16 = ''16''" "show_nat (Suc (Suc 0)) = ''2''"
  by code_simp+

lemma wait_time_values:
  "wait_time (Suc 0) = 2" "wait_time 2 = 4" "wait_time 3 = 8" "wait_time 4 = 16"
  by (simp_all add: wait_time_def)

lemma upt_max_retries: "[0..<max_retries] = [0, Suc 0, 2, 3, 4]"
  by (simp add: max_retries_def upt_rec)

text \<open>
  Claim C5, as the code has it: when the client library was imported and
  \<^verbatim>\<open>~/.kaggle/kaggle.json\<close> does not exist, \<^verbatim>\<open>download_from_kaggle\<close> prints exactly
  the three lines that name the credential file, where to get it and the directory
  \<^verbatim>\<open>~/.kaggle\<close> to put it in, and returns \<open>False\<close>. When the library was not
  imported, the function returns \<open>False\<close> at line 39, before it looks for the credential
  file, and prints only the hint to install the library. In both cases it leaves the data
  directory alone and makes no network call (neither \<^verbatim>\<open>authenticate\<close> nor a download
  request).
\<close>

theorem missing_credentials_short_circuit:
  "(kaggle_json_exists env = Inr False \<longrightarrow>
      fst (download_from_kaggle env w) = Inr False
      \<and> filter is_network_call (new_events w (snd (download_from_kaggle env w))) = []
      \<and> data_dir (snd (download_from_kaggle env w)) = data_dir w)
   \<and> (KAGGLE_AVAILABLE env \<and> kaggle_json_exists env = Inr False \<longrightarrow>
        new_events w (snd (download_from_kaggle env w)) =
          [Print ''Kaggle credentials not found.'',
           Print ''Please download kaggle.json from https://www.kaggle.com/settings and place it in:'',
           Print (''  '' @ kaggle_dir_path env)])
   \<and> (\<not> KAGGLE_AVAILABLE env \<longrightarrow>
        fst (download_from_kaggle env w) = Inr False
        \<and> new_events w (snd (download_from_kaggle env w)) =
            [Print ''Kaggle API not available. Install with: pip install kaggle''])"
  by (simp add: download_from_kaggle_def)

theorem missing_credentials_short_circuit_witness:
  "KAGGLE_AVAILABLE (example_env\<lparr>kaggle_json_exists := Inr False\<rparr>)
   \<and> kaggle_json_exists (example_env\<lparr>kaggle_json_exists := Inr False\<rparr>) = Inr False
   \<and> download_from_kaggle (example_env\<lparr>kaggle_json_exists := Inr False\<rparr>) empty_world =
       (Inr False,
        \<lparr>data_dir = [],
         trace = [Print ''Kaggle credentials not found.'',
                  Print ''Please download kaggle.json from https://www.kaggle.com/settings and place it in:'',
                  Print ''  /home/user/.kaggle'']\<rparr>)
   \<and> \<not> KAGGLE_AVAILABLE bare_env
   \<and> fst (download_from_kaggle bare_env empty_world) = Inr False
   \<and> filter is_network_call (trace (snd (download_from_kaggle bare_env empty_world))) = []"
  using missing_credentials_short_circuit
          [of "example_env\<lparr>kaggle_json_exists := Inr False\<rparr>" empty_world]
        missing_credentials_short_circuit [of bare_env empty_world]
  by (simp add: example_env_def bare_env_def empty_world_def download_from_kaggle_def emits_def
        new_events_def)

text \<open>
  Claim C5 as stated fails: with the credential file absent and the client library not
  imported, the function returns at line 39 and prints neither the credential location nor
  the instructions.
\<close>

theorem missing_credentials_without_library_counterexample:
  "kaggle_json_exists bare_env = Inr False
   \<and> download_from_kaggle bare_env empty_world =
       (Inr False,
        \<lparr>data_dir = [],
         trace = [Print ''Kaggle API not available. Install with: pip install kaggle'']\<rparr>)
   \<and> Print ''Kaggle credentials not found.''
        \<notin> set (trace (snd (download_from_kaggle bare_env empty_world)))
   \<and> Print (''  '' @ kaggle_dir_path bare_env)
        \<notin> set (trace (snd (download_from_kaggle bare_env empty_world)))"
  by (simp add: bare_env_def example_env_def empty_world_def download_from_kaggle_def emit_def)

lemma extract_zips_prints:
  "extract_zips base zs d = (r, d', evs) \<Longrightarrow> e \<in> set evs \<Longrightarrow> \<exists>t. e = Print t"
proof (induction zs arbitrary: d r d' evs)
  case Nil
  then show ?case by simp
next
  case (Cons z zs)
  then show ?case
    by (auto simp: Let_def split: sum.splits prod.splits option.splits)
qed

lemma list_files_prints:
  "list_files base fs d = (r, evs) \<Longrightarrow> e \<in> set evs \<Longrightarrow> \<exists>t n. e = PrintSizeMB t n"
proof (induction fs arbitrary: r evs)
  case Nil
  then show ?case by simp
next
  case (Cons f fs)
  then show ?case
    by (auto split: sum.splits prod.splits if_splits)
qed

lemma extract_zips_quiet:
  assumes "extract_zips base zs d = (r, d', evs)"
  shows "sleeps_and_downloads evs = []" and "filter is_network_call evs = []"
    and "filter is_download evs = []"
proof -
  have "\<forall>e\<in>set evs. \<not> is_sleep e \<and> \<not> is_network_call e \<and> \<not> is_download e"
  proof
    fix e assume "e \<in> set evs"
    then obtain t where "e = Print t" using extract_zips_prints [OF assms] by blast
    then show "\<not> is_sleep e \<and> \<not> is_network_call e \<and> \<not> is_download e" by simp
  qed
  then show "sleeps_and_downloads evs = []" and "filter is_network_call evs = []"
    and "filter is_download evs = []"
    by (simp_all add: sleeps_and_downloads_def filter_empty_conv)
qed

lemma list_files_quiet:
  assumes "list_files base fs d = (r, evs)"
  shows "sleeps_and_downloads evs = []" and "filter is_network_call evs = []"
    and "filter is_download evs = []"
proof -
  have "\<forall>e\<in>set evs. \<not> is_sleep e \<and> \<not> is_network_call e \<and> \<not> is_download e"
  proof
    fix e assume "e \<in> set evs"
    then obtain t n where "e = PrintSizeMB t n" using list_files_prints [OF assms] by blast
    then show "\<not> is_sleep e \<and> \<not> is_network_call e \<and> \<not> is_download e" by simp
  qed
  then show "sleeps_and_downloads evs = []" and "filter is_network_call evs = []"
    and "filter is_download evs = []"
    by (simp_all add: sleeps_and_downloads_def filter_empty_conv)
qed

lemma sleeps_and_downloads_append [simp]:
  "sleeps_and_downloads (xs @ ys) = sleeps_and_downloads xs @ sleeps_and_downloads ys"
  by (simp add: sleeps_and_downloads_def)

lemma sleeps_and_downloads_simps [simp]:
  "sleeps_and_downloads [] = []"
  "sleeps_and_downloads (Print t # es) = sleeps_and_downloads es"
  "sleeps_and_downloads (PrintSizeMB t n # es) = sleeps_and_downloads es"
  "sleeps_and_downloads (Sleep n # es) = Sleep n # sleeps_and_downloads es"
  "sleeps_and_downloads (CompetitionDownloadFiles c # es) =
     CompetitionDownloadFiles c # sleeps_and_downloads es"
  "sleeps_and_downloads (Authenticate # es) = sleeps_and_downloads es"
  by (simp_all add: sleeps_and_downloads_def)

text \<open>What one pass through the \<^verbatim>\<open>try\<close> block adds to the trace: the backoff
  (on every attempt but the first), the request, then lines of output only.\<close>

lemma attempt_try_trace:
  "\<exists>evs. trace (snd (attempt_try env a w)) =
           trace w @
           (if a > 0 then
              [Print (''Waiting '' @ show_nat (wait_time a) @ '' seconds before retry '' @
                      show_nat (a + 1) @ ''/'' @ show_nat max_retries @ ''...''),
               Sleep (wait_time a)]
            else []) @
           [CompetitionDownloadFiles competition] @ evs
         \<and> sleeps_and_downloads evs = [] \<and> filter is_network_call evs = []"
proof -
  obtain r d where dl: "competition_download_files env a (data_dir w) = (r, d)"
    by (cases "competition_download_files env a (data_dir w)")
  show ?thesis
  proof (cases r)
    case (Some e)
    with dl show ?thesis by (cases "a = 0") (simp_all add: attempt_try_def Let_def)
  next
    case None
    obtain r2 d' evs where ez: "extract_zips (data_dir_path env) (glob_zip d) d = (r2, d', evs)"
      by (cases "extract_zips (data_dir_path env) (glob_zip d) d")
    note q = extract_zips_quiet [OF ez]
    show ?thesis
    proof (cases r2)
      case (Some e)
      with dl None ez q show ?thesis
        by (cases "a = 0") (simp_all add: attempt_try_def Let_def)
    next
      case r2: None
      show ?thesis
      proof (cases "all_found_in REQUIRED_FILES d'")
        case True
        with dl None ez q r2 show ?thesis
          by (cases "a = 0") (simp_all add: attempt_try_def Let_def)
      next
        case False
        obtain r3 evs' where
          lf: "list_files (data_dir_path env) (sort (glob_all d')) d' = (r3, evs')"
          by (cases "list_files (data_dir_path env) (sort (glob_all d')) d'")
        note q' = list_files_quiet [OF lf]
        from dl None ez q r2 False lf q' show ?thesis
          by (cases r3; cases "a = 0") (simp_all add: attempt_try_def Let_def)
      qed
    qed
  qed
qed

lemma attempt_body_trace:
  "\<exists>evs. trace (snd (attempt_body env a w)) = trace w @ evs
         \<and> sleeps_and_downloads evs = scheduled_attempt (Suc a)"
proof -
  from attempt_try_trace [of env a w] obtain evs where
    t: "trace (snd (attempt_try env a w)) =
           trace w @
           (if a > 0 then
              [Print (''Waiting '' @ show_nat (wait_time a) @ '' seconds before retry '' @
                      show_nat (a + 1) @ ''/'' @ show_nat max_retries @ ''...''),
               Sleep (wait_time a)]
            else []) @
           [CompetitionDownloadFiles competition] @ evs"
    and q: "sleeps_and_downloads evs = []" by blast
  obtain r w' where at: "attempt_try env a w = (r, w')" by (cases "attempt_try env a w")
  from t q at show ?thesis
    by (cases r) (simp_all add: attempt_body_def scheduled_attempt_def wait_time_def)
qed

lemma retry_loop_Continue:
  "fst (attempt_body env a w) = Continue \<Longrightarrow>
     retry_loop env (a # rest) w = retry_loop env rest (snd (attempt_body env a w))"
  by (cases "attempt_body env a w") simp

lemma retry_loop_Return:
  "fst (attempt_body env a w) = Return b \<Longrightarrow>
     retry_loop env (a # rest) w = (Return b, snd (attempt_body env a w))"
  by (cases "attempt_body env a w") simp

lemma retry_loop_Raise:
  "fst (attempt_body env a w) = Raise e \<Longrightarrow>
     retry_loop env (a # rest) w = (Raise e, snd (attempt_body env a w))"
  by (cases "attempt_body env a w") simp

lemma retry_loop_trace:
  "\<exists>m evs. m \<le> length as
       \<and> trace (snd (retry_loop env as w)) = trace w @ evs
       \<and> sleeps_and_downloads evs = concat (map (\<lambda>a. scheduled_attempt (Suc a)) (take m as))"
proof (induction as arbitrary: w)
  case Nil
  show ?case by simp
next
  case (Cons a as)
  let ?w' = "snd (attempt_body env a w)"
  from attempt_body_trace [of env a w] obtain evs where
    t: "trace ?w' = trace w @ evs" and
    s: "sleeps_and_downloads evs = scheduled_attempt (Suc a)" by blast
  show ?case
  proof (cases "fst (attempt_body env a w)")
    case Continue
    from Cons.IH [of ?w'] obtain m evs' where m: "m \<le> length as"
      and t': "trace (snd (retry_loop env as ?w')) = trace ?w' @ evs'"
      and s': "sleeps_and_downloads evs' =
                 concat (map (\<lambda>a. scheduled_attempt (Suc a)) (take m as))"
      by blast
    have "Suc m \<le> length (a # as)" using m by simp
    moreover have "trace (snd (retry_loop env (a # as) w)) = trace w @ (evs @ evs')"
      using t t' by (simp add: retry_loop_Continue [OF Continue] del: retry_loop.simps)
    moreover have "sleeps_and_downloads (evs @ evs') =
        concat (map (\<lambda>a. scheduled_attempt (Suc a)) (take (Suc m) (a # as)))"
      using s s' by simp
    ultimately show ?thesis by blast
  next
    case (Return b)
    have "Suc 0 \<le> length (a # as)" by simp
    moreover have "trace (snd (retry_loop env (a # as) w)) = trace w @ evs"
      using t by (simp add: retry_loop_Return [OF Return] del: retry_loop.simps)
    moreover have "sleeps_and_downloads evs =
        concat (map (\<lambda>a. scheduled_attempt (Suc a)) (take (Suc 0) (a # as)))"
      using s by simp
    ultimately show ?thesis by blast
  next
    case (Raise e)
    have "Suc 0 \<le> length (a # as)" by simp
    moreover have "trace (snd (retry_loop env (a # as) w)) = trace w @ evs"
      using t by (simp add: retry_loop_Raise [OF Raise] del: retry_loop.simps)
    moreover have "sleeps_and_downloads evs =
        concat (map (\<lambda>a. scheduled_attempt (Suc a)) (take (Suc 0) (a # as)))"
      using s by simp
    ultimately show ?thesis by blast
  qed
qed

lemma upt_shift_schedule:
  "map (\<lambda>a. scheduled_attempt (Suc a)) [0..<m] = map scheduled_attempt [Suc 0..<Suc m]"
  by (simp add: map_Suc_upt [symmetric] del: upt_Suc)

lemma kaggle_try_trace:
  "\<exists>n evs. n \<le> max_retries
       \<and> trace (snd (kaggle_try env w)) = trace w @ evs
       \<and> sleeps_and_downloads evs = concat (map scheduled_attempt [1..<Suc n])"
proof (cases "new_api env")
  case (Some e)
  then have "trace (snd (kaggle_try env w)) = trace w @ []" by (simp add: kaggle_try_def)
  moreover have "sleeps_and_downloads [] = concat (map scheduled_attempt [1..<Suc 0])" by simp
  ultimately show ?thesis by blast
next
  case None
  show ?thesis
  proof (cases "authenticate env")
    case (Some e)
    with None have "trace (snd (kaggle_try env w)) = trace w @ [Authenticate]"
      by (simp add: kaggle_try_def Let_def)
    moreover have "sleeps_and_downloads [Authenticate] = concat (map scheduled_attempt [1..<Suc 0])"
      by simp
    ultimately show ?thesis by blast
  next
    case auth: None
    let ?w2 = "emits [Print ''Authenticated with Kaggle API'',
                      Print (''Downloading data from competition: '' @ competition)]
                 (emit Authenticate w)"
    from retry_loop_trace [of "[0..<max_retries]" env ?w2] obtain m evs where
      m: "m \<le> max_retries" and
      t: "trace (snd (retry_loop env [0..<max_retries] ?w2)) = trace ?w2 @ evs" and
      s: "sleeps_and_downloads evs =
            concat (map (\<lambda>a. scheduled_attempt (Suc a)) (take m [0..<max_retries]))"
      by auto
    obtain fl w3 where rl: "retry_loop env [0..<max_retries] ?w2 = (fl, w3)"
      by (cases "retry_loop env [0..<max_retries] ?w2")
    have "trace (snd (kaggle_try env w)) =
        trace w @ ([Authenticate, Print ''Authenticated with Kaggle API'',
                    Print (''Downloading data from competition: '' @ competition)] @ evs)"
      using None auth rl t by (cases fl) (simp_all add: kaggle_try_def Let_def)
    moreover have "sleeps_and_downloads
        ([Authenticate, Print ''Authenticated with Kaggle API'',
          Print (''Downloading data from competition: '' @ competition)] @ evs) =
        concat (map scheduled_attempt [1..<Suc m])"
      using s m by (simp add: upt_shift_schedule del: upt_Suc)
    ultimately show ?thesis using m by blast
  qed
qed

text \<open>The sleeps and requests of any run are those of the first \<open>n\<close> scheduled attempts,
  for some \<open>n\<close>.\<close>

lemma run_schedule:
  "\<exists>n\<le>5. sleeps_and_downloads (new_events w (snd (download_from_kaggle env w))) =
             concat (map scheduled_attempt [1..<Suc n])"
proof -
  from kaggle_try_trace [of env w] obtain n evs where n: "n \<le> max_retries"
    and t: "trace (snd (kaggle_try env w)) = trace w @ evs"
    and s: "sleeps_and_downloads evs = concat (map scheduled_attempt [1..<Suc n])"
    by blast
  have n5: "n \<le> 5" using n by (simp add: max_retries_def)
  have z: "sleeps_and_downloads [] = concat (map scheduled_attempt [1..<Suc 0])" by simp
  show ?thesis
  proof (cases "KAGGLE_AVAILABLE env \<and> kaggle_json_exists env = Inr True")
    case False
    then have "sleeps_and_downloads (new_events w (snd (download_from_kaggle env w))) = []"
      by (auto simp: download_from_kaggle_def new_events_def split: sum.splits bool.splits)
    with z show ?thesis by (intro exI [of _ 0]) simp
  next
    case True
    obtain r w' where kt: "kaggle_try env w = (r, w')" by (cases "kaggle_try env w")
    from True kt t s have
      "sleeps_and_downloads (new_events w (snd (download_from_kaggle env w))) =
         concat (map scheduled_attempt [1..<Suc n])"
      by (cases r) (simp_all add: download_from_kaggle_def)
    with n5 show ?thesis by blast
  qed
qed

text \<open>Counting the requests of a trace.\<close>

lemma downloads_of_schedule:
  "length (filter is_download (concat (map scheduled_attempt ks))) = length ks"
  by (induction ks) (simp_all add: scheduled_attempt_def)

lemma filter_download_sleeps_and_downloads:
  "filter is_download (sleeps_and_downloads es) = filter is_download es"
  by (induction es) (auto simp: sleeps_and_downloads_def)

lemma attempt_body_one_download:
  "\<exists>evs. trace (snd (attempt_body env a w)) = trace w @ evs
         \<and> length (filter is_download evs) = 1"
proof -
  from attempt_body_trace [of env a w] obtain evs where
    t: "trace (snd (attempt_body env a w)) = trace w @ evs" and
    s: "sleeps_and_downloads evs = scheduled_attempt (Suc a)" by blast
  have "length (filter is_download evs) = length (filter is_download (sleeps_and_downloads evs))"
    by (simp add: filter_download_sleeps_and_downloads)
  also have "\<dots> = 1" unfolding s by (simp add: scheduled_attempt_def)
  finally show ?thesis using t by blast
qed

text \<open>A rate-limited attempt that is not the last one ends in \<^verbatim>\<open>continue\<close>, so the
  attempt after a run of rate-limited ones is reached.\<close>

lemma attempt_body_continues:
  assumes "\<exists>e d'. competition_download_files env a (data_dir w) = (Some e, d')
                  \<and> is_Exception e \<and> rate_limited e"
    and "a < max_retries - 1"
  shows "fst (attempt_body env a w) = Continue"
proof -
  from assms(1) obtain e d' where
    "competition_download_files env a (data_dir w) = (Some e, d')"
    "is_Exception e" "rate_limited e" by blast
  with assms(2) show ?thesis
    by (cases "a = 0") (simp_all add: attempt_body_def attempt_try_def Let_def)
qed

lemma retry_loop_extends: "\<exists>evs. trace (snd (retry_loop env as w)) = trace w @ evs"
  using retry_loop_trace [of as env w] by blast

lemma retry_loop_reaches:
  assumes "j < length as"
    and "\<forall>i\<in>set (take j as). i < max_retries - 1
           \<and> (\<forall>d. \<exists>e d'. competition_download_files env i d = (Some e, d')
                    \<and> is_Exception e \<and> rate_limited e)"
  shows "\<exists>evs. trace (snd (retry_loop env as w)) = trace w @ evs
               \<and> Suc j \<le> length (filter is_download evs)"
  using assms
proof (induction as arbitrary: j w)
  case Nil
  then show ?case by simp
next
  case (Cons a as)
  let ?w1 = "snd (attempt_body env a w)"
  from attempt_body_one_download [of env a w] obtain e1 where
    t1: "trace ?w1 = trace w @ e1" and c1: "length (filter is_download e1) = 1" by blast
  show ?case
  proof (cases j)
    case 0
    from retry_loop_extends [of env as ?w1] obtain e2 where
      t2: "trace (snd (retry_loop env as ?w1)) = trace ?w1 @ e2" by blast
    show ?thesis
    proof (cases "fst (attempt_body env a w)")
      case Continue
      have "trace (snd (retry_loop env (a # as) w)) = trace w @ (e1 @ e2)"
        using t1 t2 by (simp add: retry_loop_Continue [OF Continue] del: retry_loop.simps)
      moreover have "Suc j \<le> length (filter is_download (e1 @ e2))" using 0 c1 by simp
      ultimately show ?thesis by blast
    next
      case (Return b)
      have "trace (snd (retry_loop env (a # as) w)) = trace w @ e1"
        using t1 by (simp add: retry_loop_Return [OF Return] del: retry_loop.simps)
      moreover have "Suc j \<le> length (filter is_download e1)" using 0 c1 by simp
      ultimately show ?thesis by blast
    next
      case (Raise e)
      have "trace (snd (retry_loop env (a # as) w)) = trace w @ e1"
        using t1 by (simp add: retry_loop_Raise [OF Raise] del: retry_loop.simps)
      moreover have "Suc j \<le> length (filter is_download e1)" using 0 c1 by simp
      ultimately show ?thesis by blast
    qed
  next
    case (Suc j')
    from Cons.prems(2) Suc have a: "a < max_retries - 1"
      and rl: "\<exists>e d'. competition_download_files env a (data_dir w) = (Some e, d')
                  \<and> is_Exception e \<and> rate_limited e"
      by simp_all
    have cont: "fst (attempt_body env a w) = Continue"
      by (rule attempt_body_continues [OF rl a])
    have "j' < length as" using Cons.prems(1) Suc by simp
    moreover have "\<forall>i\<in>set (take j' as). i < max_retries - 1
           \<and> (\<forall>d. \<exists>e d'. competition_download_files env i d = (Some e, d')
                    \<and> is_Exception e \<and> rate_limited e)"
      using Cons.prems(2) Suc by simp
    ultimately obtain e2 where
      t2: "trace (snd (retry_loop env as ?w1)) = trace ?w1 @ e2" and
      c2: "Suc j' \<le> length (filter is_download e2)"
      using Cons.IH [of j' ?w1] by blast
    have "trace (snd (retry_loop env (a # as) w)) = trace w @ (e1 @ e2)"
      using t1 t2 by (simp add: retry_loop_Continue [OF cont] del: retry_loop.simps)
    moreover have "Suc j \<le> length (filter is_download (e1 @ e2))" using Suc c1 c2 by simp
    ultimately show ?thesis by blast
  qed
qed

lemma download_from_kaggle_reaches:
  assumes "KAGGLE_AVAILABLE env" and "kaggle_json_exists env = Inr True"
    and "new_api env = None" and "authenticate env = None"
    and k: "1 \<le> k" "k \<le> 5"
    and rl: "\<forall>j<k - 1. \<forall>d. \<exists>e d'. competition_download_files env j d = (Some e, d')
                \<and> is_Exception e \<and> rate_limited e"
  shows "k \<le> length (filter is_download (new_events w (snd (download_from_kaggle env w))))"
proof -
  let ?w2 = "emits [Print ''Authenticated with Kaggle API'',
                    Print (''Downloading data from competition: '' @ competition)]
               (emit Authenticate w)"
  have len: "k - 1 < length [0..<max_retries]" using k by (simp add: max_retries_def)
  have tk: "take (k - 1) [0..<max_retries] = [0..<k - 1]"
    using k by (simp add: max_retries_def take_upt)
  have pre: "\<forall>i\<in>set (take (k - 1) [0..<max_retries]). i < max_retries - 1
           \<and> (\<forall>d. \<exists>e d'. competition_download_files env i d = (Some e, d')
                    \<and> is_Exception e \<and> rate_limited e)"
    unfolding tk using k rl by (auto simp: max_retries_def)
  from retry_loop_reaches [OF len pre, of ?w2] obtain evs where
    t: "trace (snd (retry_loop env [0..<max_retries] ?w2)) = trace ?w2 @ evs" and
    c: "Suc (k - 1) \<le> length (filter is_download evs)" by blast
  obtain fl w3 where loop: "retry_loop env [0..<max_retries] ?w2 = (fl, w3)"
    by (cases "retry_loop env [0..<max_retries] ?w2")
  from loop t have t3: "trace w3 = trace w @
      ([Authenticate, Print ''Authenticated with Kaggle API'',
        Print (''Downloading data from competition: '' @ competition)] @ evs)" by simp
  have "\<exists>rest. new_events w (snd (download_from_kaggle env w)) =
      [Authenticate, Print ''Authenticated with Kaggle API'',
       Print (''Downloading data from competition: '' @ competition)] @ evs @ rest
      \<and> filter is_download rest = []"
    using assms(1-4) loop t3
    by (cases fl) (auto simp: download_from_kaggle_def kaggle_try_def Let_def new_events_def)
  then obtain rest where
    "new_events w (snd (download_from_kaggle env w)) =
      [Authenticate, Print ''Authenticated with Kaggle API'',
       Print (''Downloading data from competition: '' @ competition)] @ evs @ rest"
    and "filter is_download rest = []" by blast
  with c k show ?thesis by simp
qed

text \<open>
  Claim C4. In every run of \<^verbatim>\<open>download_from_kaggle\<close> at most five download requests
  are made, and the sleeps and requests of the run, in order, are exactly those of the
  attempts 1 to \<open>n\<close>, \<open>n\<close> being the number of requests: attempt 1 is a request with
  no sleep before it, attempt \<open>k \<ge> 2\<close> is one sleep of \<open>min (2 ^ (k - 1)) 60\<close> seconds
  followed by a request. Attempt \<open>k\<close> (from 1 to 5) is made whenever the client library
  and the credential file are there, authentication succeeds and the requests of the
  attempts before \<open>k\<close> were rate limited. And attempt \<open>a\<close>, counted from 0, of the loop
  body starts, whatever the world it runs in, with the announcement and the sleep of
  \<open>min (2 ^ a) 60\<close> seconds unless \<open>a = 0\<close>, then makes its request, and neither
  sleeps nor requests again.
\<close>

theorem backoff_schedule:
  "length (filter is_download (new_events w (snd (download_from_kaggle env w)))) \<le> 5
   \<and> sleeps_and_downloads (new_events w (snd (download_from_kaggle env w))) =
       concat (map scheduled_attempt
         [1..<Suc (length (filter is_download
                     (new_events w (snd (download_from_kaggle env w)))))])
   \<and> (KAGGLE_AVAILABLE env \<and> kaggle_json_exists env = Inr True
       \<and> new_api env = None \<and> authenticate env = None
       \<and> 1 \<le> k \<and> k \<le> 5
       \<and> (\<forall>j<k - 1. \<forall>d. \<exists>e d'. competition_download_files env j d = (Some e, d')
                \<and> is_Exception e \<and> rate_limited e)
       \<longrightarrow> k \<le> length (filter is_download (new_events w (snd (download_from_kaggle env w)))))
   \<and> (\<exists>evs. new_events w' (snd (attempt_try env a w')) =
               (if a = 0 then []
                else [Print (''Waiting '' @ show_nat (min (2 ^ a) 60) @
                             '' seconds before retry '' @ show_nat (a + 1) @ ''/5...''),
                      Sleep (min (2 ^ a) 60)]) @
               [CompetitionDownloadFiles ''brain-to-text-25''] @ evs
           \<and> sleeps_and_downloads evs = [])"
proof (intro conjI impI)
  let ?E = "new_events w (snd (download_from_kaggle env w))"
  from run_schedule [of w env] obtain n where n: "n \<le> 5"
    and s: "sleeps_and_downloads ?E = concat (map scheduled_attempt [1..<Suc n])" by blast
  have "length (filter is_download ?E) =
      length (filter is_download (sleeps_and_downloads ?E))"
    by (simp add: filter_download_sleeps_and_downloads)
  also have "\<dots> = n" unfolding s downloads_of_schedule by simp
  finally have c: "length (filter is_download ?E) = n" .
  show "length (filter is_download ?E) \<le> 5" using c n by simp
  show "sleeps_and_downloads ?E =
      concat (map scheduled_attempt [1..<Suc (length (filter is_download ?E))])"
    unfolding c by (rule s)
next
  assume "KAGGLE_AVAILABLE env \<and> kaggle_json_exists env = Inr True
       \<and> new_api env = None \<and> authenticate env = None
       \<and> 1 \<le> k \<and> k \<le> 5
       \<and> (\<forall>j<k - 1. \<forall>d. \<exists>e d'. competition_download_files env j d = (Some e, d')
                \<and> is_Exception e \<and> rate_limited e)"
  then show "k \<le> length (filter is_download (new_events w (snd (download_from_kaggle env w))))"
    using download_from_kaggle_reaches [of env k w] by blast
next
  from attempt_try_trace [of env a w'] obtain evs where
    t: "trace (snd (attempt_try env a w')) =
           trace w' @
           (if a > 0 then
              [Print (''Waiting '' @ show_nat (wait_time a) @ '' seconds before retry '' @
                      show_nat (a + 1) @ ''/'' @ show_nat max_retries @ ''...''),
               Sleep (wait_time a)]
            else []) @
           [CompetitionDownloadFiles competition] @ evs"
    and q: "sleeps_and_downloads evs = []" by blast
  have "new_events w' (snd (attempt_try env a w')) =
               (if a = 0 then []
                else [Print (''Waiting '' @ show_nat (min (2 ^ a) 60) @
                             '' seconds before retry '' @ show_nat (a + 1) @ ''/5...''),
                      Sleep (min (2 ^ a) 60)]) @
               [CompetitionDownloadFiles ''brain-to-text-25''] @ evs"
    unfolding new_events_def t
    by (simp add: wait_time_def max_retries_def competition_def show_nat_values)
  with q show "\<exists>evs. new_events w' (snd (attempt_try env a w')) =
               (if a = 0 then []
                else [Print (''Waiting '' @ show_nat (min (2 ^ a) 60) @
                             '' seconds before retry '' @ show_nat (a + 1) @ ''/5...''),
                      Sleep (min (2 ^ a) 60)]) @
               [CompetitionDownloadFiles ''brain-to-text-25''] @ evs
           \<and> sleeps_and_downloads evs = []" by blast
qed

text \<open>The five attempts of the schedule, written out.\<close>

lemma schedule_values:
  "map scheduled_attempt [1..<6] =
     [[CompetitionDownloadFiles ''brain-to-text-25''],
      [Sleep 2, CompetitionDownloadFiles ''brain-to-text-25''],
      [Sleep 4, CompetitionDownloadFiles ''brain-to-text-25''],
      [Sleep 8, CompetitionDownloadFiles ''brain-to-text-25''],
      [Sleep 16, CompetitionDownloadFiles ''brain-to-text-25'']]"
  by code_simp

lemma schedule_sleeps_and_downloads:
  "concat (map scheduled_attempt [Suc 0..<6]) =
     [CompetitionDownloadFiles ''brain-to-text-25'',
      Sleep 2, CompetitionDownloadFiles ''brain-to-text-25'',
      Sleep 4, CompetitionDownloadFiles ''brain-to-text-25'',
      Sleep 8, CompetitionDownloadFiles ''brain-to-text-25'',
      Sleep 16, CompetitionDownloadFiles ''brain-to-text-25'']"
  by code_simp

theorem backoff_schedule_witness:
  "KAGGLE_AVAILABLE example_env \<and> kaggle_json_exists example_env = Inr True
   \<and> new_api example_env = None \<and> authenticate example_env = None
   \<and> (1::nat) \<le> 5 \<and> (5::nat) \<le> 5
   \<and> competition_download_files example_env 3 [] =
        (Some (Exception ''429 Client Error: Too Many Requests''), [])
   \<and> is_Exception (Exception ''429 Client Error: Too Many Requests'')
   \<and> rate_limited (Exception ''429 Client Error: Too Many Requests'')
   \<and> length (filter is_download
        (new_events empty_world (snd (download_from_kaggle example_env empty_world)))) = 5
   \<and> sleeps_and_downloads
        (new_events empty_world (snd (download_from_kaggle example_env empty_world))) =
       [CompetitionDownloadFiles ''brain-to-text-25'',
        Sleep 2, CompetitionDownloadFiles ''brain-to-text-25'',
        Sleep 4, CompetitionDownloadFiles ''brain-to-text-25'',
        Sleep 8, CompetitionDownloadFiles ''brain-to-text-25'',
        Sleep 16, CompetitionDownloadFiles ''brain-to-text-25'']
   \<and> sleeps_and_downloads (new_events empty_world (snd (attempt_try example_env 3 empty_world)))
       = [Sleep 8, CompetitionDownloadFiles ''brain-to-text-25'']"
proof -
  let ?E = "new_events empty_world (snd (download_from_kaggle example_env empty_world))"
  note b = backoff_schedule [of empty_world example_env 5 empty_world 3]
  have env: "KAGGLE_AVAILABLE example_env \<and> kaggle_json_exists example_env = Inr True
     \<and> new_api example_env = None \<and> authenticate example_env = None
     \<and> competition_download_files example_env 3 [] =
        (Some (Exception ''429 Client Error: Too Many Requests''), [])
     \<and> is_Exception (Exception ''429 Client Error: Too Many Requests'')
     \<and> rate_limited (Exception ''429 Client Error: Too Many Requests'')"
    by (simp add: example_env_def rate_limited_def)
  have rl: "\<forall>j<5 - 1. \<forall>d. \<exists>e d'. competition_download_files example_env j d = (Some e, d')
                \<and> is_Exception e \<and> rate_limited e"
    by (simp add: example_env_def rate_limited_def)
  from b env rl have ge: "5 \<le> length (filter is_download ?E)" by simp
  from b have le: "length (filter is_download ?E) \<le> 5" by simp
  from ge le have c: "length (filter is_download ?E) = 5" by simp
  from b have "sleeps_and_downloads ?E =
      concat (map scheduled_attempt [1..<Suc (length (filter is_download ?E))])" by simp
  then have s: "sleeps_and_downloads ?E = concat (map scheduled_attempt [1..<6])"
    unfolding c by simp
  from b obtain evs where
    "new_events empty_world (snd (attempt_try example_env 3 empty_world)) =
       (if (3::nat) = 0 then []
        else [Print (''Waiting '' @ show_nat (min (2 ^ 3) 60) @
                     '' seconds before retry '' @ show_nat (3 + 1) @ ''/5...''),
              Sleep (min (2 ^ 3) 60)]) @
       [CompetitionDownloadFiles ''brain-to-text-25''] @ evs"
    and "sleeps_and_downloads evs = []" by blast
  then have a3: "sleeps_and_downloads
      (new_events empty_world (snd (attempt_try example_env 3 empty_world))) =
      [Sleep 8, CompetitionDownloadFiles ''brain-to-text-25'']" by simp
  from env c s a3 show ?thesis by (simp add: schedule_sleeps_and_downloads)
qed

lemma attempt_body_rate_limited:
  assumes "\<forall>k d. \<exists>e d'. competition_download_files env k d = (Some e, d')
              \<and> is_Exception e \<and> rate_limited e"
  shows "fst (attempt_body env a w) = (if a < 4 then Continue else Return False)"
    and "trace (snd (attempt_body env a w)) =
           trace w @
           (if a > 0 then
              [Print (''Waiting '' @ show_nat (wait_time a) @ '' seconds before retry '' @
                      show_nat (a + 1) @ ''/5...''),
               Sleep (wait_time a)]
            else []) @
           [CompetitionDownloadFiles ''brain-to-text-25''] @
           (if a < 4 then [Print ''Rate limited. Retrying...'']
            else [Print ''Rate limited after 5 attempts.'',
                  Print ''Please wait a few minutes and try again, or download manually.''])"
proof -
  from assms obtain e d' where
    dl: "competition_download_files env a (data_dir w) = (Some e, d')"
    and rl: "is_Exception e" "rate_limited e"
    by blast
  from dl rl show "fst (attempt_body env a w) = (if a < 4 then Continue else Return False)"
    by (cases "a = 0")
       (simp_all add: attempt_body_def attempt_try_def Let_def max_retries_def)
  from dl rl show "trace (snd (attempt_body env a w)) =
           trace w @
           (if a > 0 then
              [Print (''Waiting '' @ show_nat (wait_time a) @ '' seconds before retry '' @
                      show_nat (a + 1) @ ''/5...''),
               Sleep (wait_time a)]
            else []) @
           [CompetitionDownloadFiles ''brain-to-text-25''] @
           (if a < 4 then [Print ''Rate limited. Retrying...'']
            else [Print ''Rate limited after 5 attempts.'',
                  Print ''Please wait a few minutes and try again, or download manually.''])"
    by (cases "a = 0")
       (simp_all add: attempt_body_def attempt_try_def Let_def max_retries_def competition_def
          show_nat_values)
qed

text \<open>
  Claim C3: when the client library and the credential file are there, authentication
  succeeds and every download request raises an error (an instance of
  \<^verbatim>\<open>Exception\<close>) whose text contains \<^verbatim>\<open>429\<close> or
  \<^verbatim>\<open>Too Many Requests\<close>, the run is exactly the one below: five
  download requests, the sleeps 2, 4, 8 and 16 between them, the two lines that report the
  exhausted retries, and the result \<open>False\<close>.
\<close>

theorem rate_limit_exhausts_after_five_attempts:
  assumes "KAGGLE_AVAILABLE env" and "kaggle_json_exists env = Inr True"
    and "new_api env = None" and "authenticate env = None"
    and rl: "\<forall>k d. \<exists>e d'. competition_download_files env k d = (Some e, d')
                \<and> is_Exception e \<and> rate_limited e"
  shows "fst (download_from_kaggle env w) = Inr False
    \<and> new_events w (snd (download_from_kaggle env w)) =
        [Authenticate,
         Print ''Authenticated with Kaggle API'',
         Print ''Downloading data from competition: brain-to-text-25'',
         CompetitionDownloadFiles ''brain-to-text-25'',
         Print ''Rate limited. Retrying...'',
         Print ''Waiting 2 seconds before retry 2/5...'', Sleep 2,
         CompetitionDownloadFiles ''brain-to-text-25'',
         Print ''Rate limited. Retrying...'',
         Print ''Waiting 4 seconds before retry 3/5...'', Sleep 4,
         CompetitionDownloadFiles ''brain-to-text-25'',
         Print ''Rate limited. Retrying...'',
         Print ''Waiting 8 seconds before retry 4/5...'', Sleep 8,
         CompetitionDownloadFiles ''brain-to-text-25'',
         Print ''Rate limited. Retrying...'',
         Print ''Waiting 16 seconds before retry 5/5...'', Sleep 16,
         CompetitionDownloadFiles ''brain-to-text-25'',
         Print ''Rate limited after 5 attempts.'',
         Print ''Please wait a few minutes and try again, or download manually.'']
    \<and> length (filter is_download (new_events w (snd (download_from_kaggle env w)))) = 5"
proof -
  define w0 where "w0 = emits [Print ''Authenticated with Kaggle API'',
                      Print (''Downloading data from competition: '' @ competition)]
                 (emit Authenticate w)"
  define w1 where "w1 = snd (attempt_body env 0 w0)"
  define w2 where "w2 = snd (attempt_body env (Suc 0) w1)"
  define w3 where "w3 = snd (attempt_body env 2 w2)"
  define w4 where "w4 = snd (attempt_body env 3 w3)"
  define w5 where "w5 = snd (attempt_body env 4 w4)"
  note ab = attempt_body_rate_limited [OF rl]
  have f0: "fst (attempt_body env 0 w0) = Continue" using ab(1) [of 0 w0] by simp
  have f1: "fst (attempt_body env (Suc 0) w1) = Continue" using ab(1) [of "Suc 0" w1] by simp
  have f2: "fst (attempt_body env 2 w2) = Continue" using ab(1) [of 2 w2] by simp
  have f3: "fst (attempt_body env 3 w3) = Continue" using ab(1) [of 3 w3] by simp
  have f4: "fst (attempt_body env 4 w4) = Return False" using ab(1) [of 4 w4] by simp
  have loop: "retry_loop env [0..<max_retries] w0 = (Return False, w5)"
    unfolding upt_max_retries
    by (simp only: retry_loop_Continue [OF f0] retry_loop_Continue [OF f1 [unfolded w1_def]]
          retry_loop_Continue [OF f2 [unfolded w2_def w1_def]]
          retry_loop_Continue [OF f3 [unfolded w3_def w2_def w1_def]]
          retry_loop_Return [OF f4 [unfolded w4_def w3_def w2_def w1_def]]
          w5_def w4_def w3_def w2_def w1_def)
  have t0: "trace w0 = trace w @ [Authenticate, Print ''Authenticated with Kaggle API'',
         Print ''Downloading data from competition: brain-to-text-25'']"
    by (simp add: w0_def competition_def)
  have t1: "trace w1 = trace w0 @ [CompetitionDownloadFiles ''brain-to-text-25'',
         Print ''Rate limited. Retrying...'']"
    unfolding w1_def using ab(2) [of 0 w0] by simp
  have t2: "trace w2 = trace w1 @ [Print ''Waiting 2 seconds before retry 2/5...'', Sleep 2,
         CompetitionDownloadFiles ''brain-to-text-25'', Print ''Rate limited. Retrying...'']"
    unfolding w2_def using ab(2) [of "Suc 0" w1] by (simp add: wait_time_values show_nat_values)
  have t3: "trace w3 = trace w2 @ [Print ''Waiting 4 seconds before retry 3/5...'', Sleep 4,
         CompetitionDownloadFiles ''brain-to-text-25'', Print ''Rate limited. Retrying...'']"
    unfolding w3_def using ab(2) [of 2 w2] by (simp add: wait_time_values show_nat_values)
  have t4: "trace w4 = trace w3 @ [Print ''Waiting 8 seconds before retry 4/5...'', Sleep 8,
         CompetitionDownloadFiles ''brain-to-text-25'', Print ''Rate limited. Retrying...'']"
    unfolding w4_def using ab(2) [of 3 w3] by (simp add: wait_time_values show_nat_values)
  have t5: "trace w5 = trace w4 @ [Print ''Waiting 16 seconds before retry 5/5...'', Sleep 16,
         CompetitionDownloadFiles ''brain-to-text-25'',
         Print ''Rate limited after 5 attempts.'',
         Print ''Please wait a few minutes and try again, or download manually.'']"
    unfolding w5_def using ab(2) [of 4 w4] by (simp add: wait_time_values show_nat_values)
  have res: "download_from_kaggle env w = (Inr False, w5)"
    using assms(1-4) loop by (simp add: download_from_kaggle_def kaggle_try_def Let_def w0_def)
  have tr: "trace w5 = trace w @
        [Authenticate,
         Print ''Authenticated with Kaggle API'',
         Print ''Downloading data from competition: brain-to-text-25'',
         CompetitionDownloadFiles ''brain-to-text-25'',
         Print ''Rate limited. Retrying...'',
         Print ''Waiting 2 seconds before retry 2/5...'', Sleep 2,
         CompetitionDownloadFiles ''brain-to-text-25'',
         Print ''Rate limited. Retrying...'',
         Print ''Waiting 4 seconds before retry 3/5...'', Sleep 4,
         CompetitionDownloadFiles ''brain-to-text-25'',
         Print ''Rate limited. Retrying...'',
         Print ''Waiting 8 seconds before retry 4/5...'', Sleep 8,
         CompetitionDownloadFiles ''brain-to-text-25'',
         Print ''Rate limited. Retrying...'',
         Print ''Waiting 16 seconds before retry 5/5...'', Sleep 16,
         CompetitionDownloadFiles ''brain-to-text-25'',
         Print ''Rate limited after 5 attempts.'',
         Print ''Please wait a few minutes and try again, or download manually.'']"
    by (simp only: t5 t4 t3 t2 t1 t0 append_assoc append.simps)
  show ?thesis
    unfolding res fst_conv snd_conv new_events_append [OF tr] by simp
qed


theorem rate_limit_exhausts_after_five_attempts_witness:
  "KAGGLE_AVAILABLE example_env \<and> kaggle_json_exists example_env = Inr True
   \<and> new_api example_env = None \<and> authenticate example_env = None
   \<and> competition_download_files example_env 3 [] =
        (Some (Exception ''429 Client Error: Too Many Requests''), [])
   \<and> is_Exception (Exception ''429 Client Error: Too Many Requests'')
   \<and> rate_limited (Exception ''429 Client Error: Too Many Requests'')
   \<and> fst (download_from_kaggle example_env empty_world) = Inr False
   \<and> length (filter is_download (trace (snd (download_from_kaggle example_env empty_world)))) = 5
   \<and> filter is_sleep (trace (snd (download_from_kaggle example_env empty_world))) =
        [Sleep 2, Sleep 4, Sleep 8, Sleep 16]"
  using rate_limit_exhausts_after_five_attempts [of example_env empty_world]
  by (simp add: example_env_def empty_world_def new_events_def rate_limited_def)

lemma retry_loop_append:
  "retry_loop env (xs @ ys) w =
     (case retry_loop env xs w of
        (Continue, w') \<Rightarrow> retry_loop env ys w'
      | (Return b, w') \<Rightarrow> (Return b, w')
      | (Raise e, w') \<Rightarrow> (Raise e, w'))"
proof (induction xs arbitrary: w)
  case Nil
  show ?case by simp
next
  case (Cons a xs)
  show ?case
    by (cases "attempt_body env a w"; cases "fst (attempt_body env a w)")
       (simp_all add: Cons.IH)
qed

lemma upt_split_at: "a < n \<Longrightarrow> [0..<n] = [0..<a] @ a # [Suc a..<n]"
proof -
  assume a: "a < n"
  have "[0..<a + (n - a)] = [0..<a] @ [a..<a + (n - a)]"
    by (rule upt_add_eq_append) simp
  moreover have "a + (n - a) = n" using a by simp
  ultimately have "[0..<n] = [0..<a] @ [a..<n]" by simp
  with a show ?thesis by (simp add: upt_conv_Cons)
qed

text \<open>
  Claim C1, as the code has it: when the attempts before attempt \<open>a\<close> all ended in
  \<^verbatim>\<open>continue\<close> and the \<^verbatim>\<open>try\<close> block of attempt \<open>a\<close> raises an error (an
  instance of \<^verbatim>\<open>Exception\<close>, which is what the handler of line 93 catches) whose
  text contains neither \<^verbatim>\<open>429\<close> nor \<^verbatim>\<open>Too Many Requests\<close>, the retry loop
  re-raises it at once: the loop ends in the very world the failing attempt left, so no
  further attempt, sleep or request follows. The exception then meets the handler of
  line 107: \<^verbatim>\<open>download_from_kaggle\<close> prints it and returns \<open>False\<close>; it does not
  reach the caller.
\<close>

theorem non_rate_limit_error_not_retried:
  assumes "KAGGLE_AVAILABLE env" and "kaggle_json_exists env = Inr True"
    and "new_api env = None" and "authenticate env = None"
    and a: "a < max_retries"
    and before: "retry_loop env [0..<a]
        (emits [Print ''Authenticated with Kaggle API'',
                Print (''Downloading data from competition: '' @ competition)]
           (emit Authenticate w)) = (Continue, wa)"
    and raised: "attempt_try env a wa = (Inl e, wb)"
    and caught: "is_Exception e"
    and other: "\<not> rate_limited e"
  shows "retry_loop env [0..<max_retries]
        (emits [Print ''Authenticated with Kaggle API'',
                Print (''Downloading data from competition: '' @ competition)]
           (emit Authenticate w)) = (Raise e, wb)
    \<and> download_from_kaggle env w =
        (Inr False, emit (Print (''Error downloading from Kaggle: '' @ str e)) wb)"
proof -
  let ?w0 = "emits [Print ''Authenticated with Kaggle API'',
                Print (''Downloading data from competition: '' @ competition)]
           (emit Authenticate w)"
  have body: "attempt_body env a wa = (Raise e, wb)"
    using raised caught other by (simp add: attempt_body_def)
  have loop: "retry_loop env [0..<max_retries] ?w0 = (Raise e, wb)"
    unfolding upt_split_at [OF a] retry_loop_append before
    using body by simp
  from assms(1-4) loop caught show ?thesis
    by (simp add: download_from_kaggle_def kaggle_try_def Let_def)
qed

theorem non_rate_limit_error_not_retried_witness:
  "KAGGLE_AVAILABLE flaky_env \<and> kaggle_json_exists flaky_env = Inr True
   \<and> new_api flaky_env = None \<and> authenticate flaky_env = None
   \<and> Suc 0 < max_retries
   \<and> retry_loop flaky_env [0..<Suc 0]
        (emits [Print ''Authenticated with Kaggle API'',
                Print (''Downloading data from competition: '' @ competition)]
           (emit Authenticate empty_world)) =
       (Continue,
        \<lparr>data_dir = [],
         trace = [Authenticate,
                  Print ''Authenticated with Kaggle API'',
                  Print ''Downloading data from competition: brain-to-text-25'',
                  CompetitionDownloadFiles ''brain-to-text-25'',
                  Print ''Rate limited. Retrying...'']\<rparr>)
   \<and> attempt_try flaky_env (Suc 0)
        \<lparr>data_dir = [],
         trace = [Authenticate,
                  Print ''Authenticated with Kaggle API'',
                  Print ''Downloading data from competition: brain-to-text-25'',
                  CompetitionDownloadFiles ''brain-to-text-25'',
                  Print ''Rate limited. Retrying...'']\<rparr> =
       (Inl (Exception ''Connection refused''),
        \<lparr>data_dir = [],
         trace = [Authenticate,
                  Print ''Authenticated with Kaggle API'',
                  Print ''Downloading data from competition: brain-to-text-25'',
                  CompetitionDownloadFiles ''brain-to-text-25'',
                  Print ''Rate limited. Retrying...'',
                  Print ''Waiting 2 seconds before retry 2/5...'', Sleep 2,
                  CompetitionDownloadFiles ''brain-to-text-25'']\<rparr>)
   \<and> is_Exception (Exception ''Connection refused'')
   \<and> \<not> rate_limited (Exception ''Connection refused'')
   \<and> download_from_kaggle flaky_env empty_world =
       (Inr False,
        \<lparr>data_dir = [],
         trace = [Authenticate,
                  Print ''Authenticated with Kaggle API'',
                  Print ''Downloading data from competition: brain-to-text-25'',
                  CompetitionDownloadFiles ''brain-to-text-25'',
                  Print ''Rate limited. Retrying...'',
                  Print ''Waiting 2 seconds before retry 2/5...'', Sleep 2,
                  CompetitionDownloadFiles ''brain-to-text-25'',
                  Print ''Error downloading from Kaggle: Connection refused'']\<rparr>)"
  using non_rate_limit_error_not_retried
    [of flaky_env "Suc 0" empty_world
        "\<lparr>data_dir = [],
         trace = [Authenticate,
                  Print ''Authenticated with Kaggle API'',
                  Print ''Downloading data from competition: brain-to-text-25'',
                  CompetitionDownloadFiles ''brain-to-text-25'',
                  Print ''Rate limited. Retrying...'']\<rparr>"
        "Exception ''Connection refused''"
        "\<lparr>data_dir = [],
         trace = [Authenticate,
                  Print ''Authenticated with Kaggle API'',
                  Print ''Downloading data from competition: brain-to-text-25'',
                  CompetitionDownloadFiles ''brain-to-text-25'',
                  Print ''Rate limited. Retrying...'',
                  Print ''Waiting 2 seconds before retry 2/5...'', Sleep 2,
                  CompetitionDownloadFiles ''brain-to-text-25'']\<rparr>"]
  by (simp add: flaky_env_def example_env_def empty_world_def max_retries_def
        attempt_body_def attempt_try_def rate_limited_def Let_def emit_def emits_def
        competition_def wait_time_values show_nat_values)

text \<open>
  Claim C1 as stated fails: a refused connection on the first request is no rate limit,
  yet the caller of \<^verbatim>\<open>download_from_kaggle\<close> gets the boolean \<open>False\<close>, not the
  exception.
\<close>

theorem non_rate_limit_error_swallowed_counterexample:
  "fst (attempt_try refusing_env 0
        \<lparr>data_dir = [],
         trace = [Authenticate,
                  Print ''Authenticated with Kaggle API'',
                  Print ''Downloading data from competition: brain-to-text-25'']\<rparr>)
     = Inl (Exception ''Connection refused'')
   \<and> \<not> rate_limited (Exception ''Connection refused'')
   \<and> fst (download_from_kaggle refusing_env empty_world) = Inr False
   \<and> fst (download_from_kaggle refusing_env empty_world) \<noteq> Inl (Exception ''Connection refused'')"
  by (simp add: refusing_env_def example_env_def empty_world_def download_from_kaggle_def
        kaggle_try_def upt_max_retries attempt_body_def attempt_try_def rate_limited_def
        Let_def emit_def emits_def competition_def)


lemma list_files_all:
  "list_files base fs d =
     (None, map (\<lambda>f. PrintSizeMB (''  '' @ f @ '': '') (file_size d f)) (filter (path_is_file d) fs))"
  by (induction fs)
     (auto simp: path_is_file_def stat_size_def file_size_def split: option.splits)

text \<open>
  Claim C6: when the first download request raises nothing, the extraction raises nothing
  and verification then finds a manifest name missing, \<^verbatim>\<open>download_from_kaggle\<close>
  returns \<open>False\<close> after that single request: it prints the regular files of the data
  directory, sorted by name, each with its size, then the line that files are missing,
  and makes no second attempt.
\<close>

theorem incomplete_download_is_not_retried:
  assumes "KAGGLE_AVAILABLE env" and "kaggle_json_exists env = Inr True"
    and "new_api env = None" and "authenticate env = None"
    and dl: "competition_download_files env 0 (data_dir w) = (None, d1)"
    and ez: "extract_zips (data_dir_path env) (glob_zip d1) d1 = (None, d2, evs)"
    and part: "\<not> all_found_in REQUIRED_FILES d2"
  shows "fst (download_from_kaggle env w) = Inr False
    \<and> data_dir (snd (download_from_kaggle env w)) = d2
    \<and> new_events w (snd (download_from_kaggle env w)) =
        [Authenticate,
         Print ''Authenticated with Kaggle API'',
         Print ''Downloading data from competition: brain-to-text-25'',
         CompetitionDownloadFiles ''brain-to-text-25''] @ evs @
        [Print (CHR 0x0A # ''Files in data directory:'')] @
        map (\<lambda>f. PrintSizeMB (''  '' @ f @ '': '') (file_size d2 f))
          (filter (path_is_file d2) (sort (glob_all d2))) @
        [Print (CHR 0x0A # ''Some required files are missing after download'')]
    \<and> length (filter is_download (new_events w (snd (download_from_kaggle env w)))) = 1"
proof -
  let ?w0 = "emits [Print ''Authenticated with Kaggle API'',
                Print (''Downloading data from competition: '' @ competition)]
           (emit Authenticate w)"
  let ?listing = "map (\<lambda>f. PrintSizeMB (''  '' @ f @ '': '') (file_size d2 f))
          (filter (path_is_file d2) (sort (glob_all d2)))"
  have at: "fst (attempt_try env 0 ?w0) = Inr False"
    using dl ez part by (simp add: attempt_try_def Let_def list_files_all)
  have d: "data_dir (snd (attempt_try env 0 ?w0)) = d2"
    using dl ez part by (simp add: attempt_try_def Let_def list_files_all)
  have t: "trace (snd (attempt_try env 0 ?w0)) =
      trace w @ ([Authenticate,
         Print ''Authenticated with Kaggle API'',
         Print ''Downloading data from competition: brain-to-text-25'',
         CompetitionDownloadFiles ''brain-to-text-25''] @ evs @
        [Print (CHR 0x0A # ''Files in data directory:'')] @ ?listing @
        [Print (CHR 0x0A # ''Some required files are missing after download'')])"
    using dl ez part by (simp add: attempt_try_def Let_def list_files_all competition_def)
  have ab: "attempt_body env 0 ?w0 = (Return False, snd (attempt_try env 0 ?w0))"
    using at by (cases "attempt_try env 0 ?w0") (simp add: attempt_body_def)
  have loop: "retry_loop env [0..<max_retries] ?w0 = (Return False, snd (attempt_try env 0 ?w0))"
    unfolding upt_max_retries using ab by simp
  have res: "download_from_kaggle env w = (Inr False, snd (attempt_try env 0 ?w0))"
    using assms(1-4) loop by (simp add: download_from_kaggle_def kaggle_try_def Let_def)
  have q: "filter is_download evs = []" by (rule extract_zips_quiet(3) [OF ez])
  have l: "filter is_download ?listing = []" by (simp add: filter_empty_conv)
  show ?thesis
    unfolding res fst_conv snd_conv new_events_append [OF t] using d q l by simp
qed

theorem incomplete_download_is_not_retried_witness:
  "KAGGLE_AVAILABLE partial_env \<and> kaggle_json_exists partial_env = Inr True
   \<and> new_api partial_env = None \<and> authenticate partial_env = None
   \<and> competition_download_files partial_env 0 (data_dir empty_world) =
       (None,
        [(''brain-to-text-25.zip'',
          RegularFile 900
            (Some [(''data_val.hdf5'', RegularFile 300 None),
                   (''data_train.hdf5'', RegularFile 500 None)]))])
   \<and> extract_zips (data_dir_path partial_env)
        (glob_zip [(''brain-to-text-25.zip'',
          RegularFile 900
            (Some [(''data_val.hdf5'', RegularFile 300 None),
                   (''data_train.hdf5'', RegularFile 500 None)]))])
        [(''brain-to-text-25.zip'',
          RegularFile 900
            (Some [(''data_val.hdf5'', RegularFile 300 None),
                   (''data_train.hdf5'', RegularFile 500 None)]))] =
       (None,
        [(''data_train.hdf5'', RegularFile 500 None), (''data_val.hdf5'', RegularFile 300 None)],
        [Print ''Extracting brain-to-text-25.zip...''])
   \<and> \<not> all_found_in REQUIRED_FILES
         [(''data_train.hdf5'', RegularFile 500 None), (''data_val.hdf5'', RegularFile 300 None)]
   \<and> download_from_kaggle partial_env empty_world =
       (Inr False,
        \<lparr>data_dir =
           [(''data_train.hdf5'', RegularFile 500 None), (''data_val.hdf5'', RegularFile 300 None)],
         trace =
           [Authenticate,
            Print ''Authenticated with Kaggle API'',
            Print ''Downloading data from competition: brain-to-text-25'',
            CompetitionDownloadFiles ''brain-to-text-25'',
            Print ''Extracting brain-to-text-25.zip...'',
            Print (CHR 0x0A # ''Files in data directory:''),
            PrintSizeMB ''  data_train.hdf5: '' 500,
            PrintSizeMB ''  data_val.hdf5: '' 300,
            Print (CHR 0x0A # ''Some required files are missing after download'')]\<rparr>)"
  using incomplete_download_is_not_retried
    [of partial_env empty_world
        "[(''brain-to-text-25.zip'',
          RegularFile 900
            (Some [(''data_val.hdf5'', RegularFile 300 None),
                   (''data_train.hdf5'', RegularFile 500 None)]))]"
        "[(''data_train.hdf5'', RegularFile 500 None), (''data_val.hdf5'', RegularFile 300 None)]"
        "[Print ''Extracting brain-to-text-25.zip...'']"]
  by (simp add: partial_env_def example_env_def empty_world_def download_from_kaggle_def
        kaggle_try_def upt_max_retries attempt_body_def attempt_try_def Let_def emit_def
        emits_def competition_def glob_zip_def glob_all_def ends_with_def open_zip_def
        unlink_def extractall.simps all_found_in_def REQUIRED_FILES_def path_exists_def path_is_file_def
        stat_size_def)











section \<open>The entry point: main\<close>

lemma existing_files_all: "all_found_in M d \<Longrightarrow> existing_files M d = M"
  by (simp add: all_found_in_def existing_files_def list_all_iff)

lemma check_existing_files_in_all_present:
  "all_found_in M (data_dir w) \<Longrightarrow>
     check_existing_files_in base M w =
       (Inr True,
        emits (Print (check_mark @ '' All data files already exist!'') #
               map (\<lambda>f. PrintSizeMB (''  '' @ f @ '': '') (file_size (data_dir w) f)) M) w)"
  by (simp add: check_existing_files_in_def Let_def existing_files_all print_sizes_all_exist
        all_found_in_def list_all_iff emit_def emits_def)

lemma check_existing_files_in_data_dir:
  "data_dir (snd (check_existing_files_in base M w)) = data_dir w"
proof -
  have ex: "\<forall>f\<in>set (existing_files M (data_dir w)). path_exists (data_dir w) f"
    by (simp add: existing_files_def)
  show ?thesis
  proof (cases "\<forall>f\<in>set M. path_exists (data_dir w) f")
    case True
    then have "all_found_in M (data_dir w)" by (simp add: all_found_in_def list_all_iff)
    then show ?thesis by (simp add: check_existing_files_in_all_present)
  next
    case False
    then have ne: "length (existing_files M (data_dir w)) \<noteq> length M"
      by (simp add: existing_files_def length_filter_eq_iff)
    from ne show ?thesis
      by (simp add: check_existing_files_in_def Let_def print_sizes_all_exist [OF ex])
  qed
qed

lemma attempt_try_True:
  "attempt_try env a w = (Inr True, w') \<Longrightarrow> all_found_in REQUIRED_FILES (data_dir w')"
  by (auto simp: attempt_try_def Let_def split: prod.splits option.splits if_splits)

lemma attempt_body_True:
  "attempt_body env a w = (Return True, w') \<Longrightarrow> all_found_in REQUIRED_FILES (data_dir w')"
  by (cases "attempt_try env a w"; cases "fst (attempt_try env a w)")
     (auto simp: attempt_body_def dest: attempt_try_True split: if_splits)

lemma retry_loop_True:
  "retry_loop env as w = (Return True, w') \<Longrightarrow> all_found_in REQUIRED_FILES (data_dir w')"
proof (induction as arbitrary: w)
  case Nil
  then show ?case by simp
next
  case (Cons a as)
  obtain fl w1 where ab: "attempt_body env a w = (fl, w1)" by (cases "attempt_body env a w")
  show ?case
  proof (cases fl)
    case Continue
    with ab Cons.prems have "retry_loop env as w1 = (Return True, w')" by simp
    then show ?thesis by (rule Cons.IH)
  next
    case (Return b)
    with ab Cons.prems have "attempt_body env a w = (Return True, w')" by simp
    then show ?thesis by (rule attempt_body_True)
  next
    case (Raise e)
    with ab Cons.prems show ?thesis by simp
  qed
qed

lemma download_from_kaggle_True:
  "download_from_kaggle env w = (Inr True, w') \<Longrightarrow> all_found_in REQUIRED_FILES (data_dir w')"
  by (auto simp: download_from_kaggle_def kaggle_try_def Let_def
        split: if_splits option.splits prod.splits sum.splits flow.splits bool.splits
        dest: retry_loop_True)

lemma main_success_all_found:
  assumes "fst (main env w) = Inr 0"
  shows "all_found_in REQUIRED_FILES (data_dir (snd (main env w)))"
proof -
  let ?w1 = "emits [Print (replicate 60 (CHR ''='')),
                      Print ''Brain-to-Text Data Download'',
                      Print (replicate 60 (CHR ''=''))] w"
  show ?thesis
  proof (cases "all_found_in REQUIRED_FILES (data_dir w)")
    case True
    then show ?thesis
      by (simp add: main_def Let_def check_existing_files_def check_existing_files_in_all_present)
  next
    case False
    obtain r w2 where ce: "check_existing_files (data_dir_path env) ?w1 = (r, w2)"
      by (cases "check_existing_files (data_dir_path env) ?w1")
    have "fst (check_existing_files_in (data_dir_path env) REQUIRED_FILES ?w1) \<noteq> Inr True"
      using False by (simp add: check_existing_files_in_true_iff all_found_in_def list_all_iff)
    with ce have rT: "r \<noteq> Inr True" by (simp add: check_existing_files_def)
    let ?w3 = "emits [Print ([CHR 0x0A] @ ''Data directory: '' @ data_dir_path env),
                      Print (''Required files: '' @ join '', '' REQUIRED_FILES),
                      Print ([CHR 0x0A] @ ''[Method 1] Trying Kaggle API...'')] w2"
    obtain r4 w4 where dk: "download_from_kaggle env ?w3 = (r4, w4)"
      by (cases "download_from_kaggle env ?w3")
    show ?thesis
    proof (cases r)
      case (Inl e)
      with ce assms show ?thesis by (simp add: main_def Let_def)
    next
      case (Inr b)
      with rT have b: "b = False" by simp
      show ?thesis
      proof (cases r4)
        case (Inl e)
        with ce Inr b dk assms show ?thesis by (simp add: main_def Let_def)
      next
        case r4: (Inr b4)
        show ?thesis
        proof (cases b4)
          case True
          with dk r4 have "all_found_in REQUIRED_FILES (data_dir w4)"
            by (auto dest: download_from_kaggle_True)
          with ce Inr b dk r4 True show ?thesis by (simp add: main_def Let_def)
        next
          case False
          with ce Inr b dk r4 assms show ?thesis
            by (simp add: main_def Let_def download_from_dryad_def split: if_splits)
        qed
      qed
    qed
  qed
qed

lemma main_all_present:
  assumes "all_found_in REQUIRED_FILES (data_dir w)"
  shows "main env w =
      (Inr 0,
       emits ([Print (replicate 60 (CHR ''='')),
               Print ''Brain-to-Text Data Download'',
               Print (replicate 60 (CHR ''='')),
               Print (check_mark @ '' All data files already exist!'')] @
              map (\<lambda>f. PrintSizeMB (''  '' @ f @ '': '') (file_size (data_dir w) f))
                REQUIRED_FILES) w)"
  using assms
  by (simp add: main_def Let_def check_existing_files_def check_existing_files_in_all_present
        emits_def)

text \<open>
  Claim C9: when every manifest name exists in the data directory on entry, \<^verbatim>\<open>main\<close>
  returns 0 (so the script exits with code 0), leaves the data directory as it is and
  prints only the banner and the sizes: no network call is made, neither fetch is entered.
  And after any run of \<^verbatim>\<open>main\<close> that returned 0, a second run, in whatever
  environment, returns 0 again without a network call.
\<close>

theorem all_present_skips_fetch:
  "(all_found_in REQUIRED_FILES (data_dir w) \<longrightarrow>
      fst (main env w) = Inr 0
      \<and> fst (download_data_script env w) = Inr 0
      \<and> data_dir (snd (main env w)) = data_dir w
      \<and> filter is_network_call (new_events w (snd (main env w))) = []
      \<and> new_events w (snd (main env w)) =
          [Print (replicate 60 (CHR ''='')),
           Print ''Brain-to-Text Data Download'',
           Print (replicate 60 (CHR ''='')),
           Print (check_mark @ '' All data files already exist!'')] @
          map (\<lambda>f. PrintSizeMB (''  '' @ f @ '': '') (file_size (data_dir w) f)) REQUIRED_FILES)
   \<and> (fst (main env w) = Inr 0 \<longrightarrow>
        fst (main env' (snd (main env w))) = Inr 0
        \<and> filter is_network_call
            (new_events (snd (main env w)) (snd (main env' (snd (main env w))))) = [])"
proof (intro conjI impI)
  assume a: "all_found_in REQUIRED_FILES (data_dir w)"
  note m = main_all_present [OF a, of env]
  show "fst (main env w) = Inr 0" by (simp add: m)
  show "fst (download_data_script env w) = Inr 0"
    by (simp add: download_data_script_def m sys_exit_def)
  show "data_dir (snd (main env w)) = data_dir w" by (simp add: m)
  show "filter is_network_call (new_events w (snd (main env w))) = []"
    by (simp add: m new_events_def filter_empty_conv)
  show "new_events w (snd (main env w)) =
          [Print (replicate 60 (CHR ''='')),
           Print ''Brain-to-Text Data Download'',
           Print (replicate 60 (CHR ''='')),
           Print (check_mark @ '' All data files already exist!'')] @
          map (\<lambda>f. PrintSizeMB (''  '' @ f @ '': '') (file_size (data_dir w) f)) REQUIRED_FILES"
    by (simp add: m new_events_def)
next
  assume "fst (main env w) = Inr 0"
  then have a: "all_found_in REQUIRED_FILES (data_dir (snd (main env w)))"
    by (rule main_success_all_found)
  note m = main_all_present [OF a, of env']
  show "fst (main env' (snd (main env w))) = Inr 0" by (simp add: m)
  show "filter is_network_call
            (new_events (snd (main env w)) (snd (main env' (snd (main env w))))) = []"
    by (simp add: m new_events_def filter_empty_conv)
qed


theorem all_present_skips_fetch_witness:
  "all_found_in REQUIRED_FILES (data_dir complete_world)
   \<and> fst (main example_env complete_world) = Inr 0
   \<and> filter is_network_call (trace (snd (main example_env complete_world))) = []
   \<and> fst (main complete_env empty_world) = Inr 0
   \<and> filter is_network_call (trace (snd (main complete_env empty_world))) =
        [Authenticate, CompetitionDownloadFiles ''brain-to-text-25'']
   \<and> fst (main complete_env (snd (main complete_env empty_world))) = Inr 0
   \<and> filter is_network_call
        (new_events (snd (main complete_env empty_world))
           (snd (main complete_env (snd (main complete_env empty_world))))) = []"
proof -
  have first: "fst (main complete_env empty_world) = Inr 0
      \<and> filter is_network_call (trace (snd (main complete_env empty_world))) =
        [Authenticate, CompetitionDownloadFiles ''brain-to-text-25'']"
    by (simp add: main_def check_existing_files_def check_existing_files_in_def
          existing_files_def download_from_kaggle_def kaggle_try_def upt_max_retries
          attempt_body_def attempt_try_def complete_env_def example_env_def empty_world_def
          REQUIRED_FILES_def path_exists_def all_found_in_def glob_zip_def glob_all_def
          ends_with_def competition_def emit_def emits_def Let_def)
  have present: "all_found_in REQUIRED_FILES (data_dir complete_world)"
    by (simp add: complete_world_def all_found_in_def REQUIRED_FILES_def path_exists_def)
  from first present
    all_present_skips_fetch [of complete_world example_env example_env]
    all_present_skips_fetch [of empty_world complete_env complete_env]
  show ?thesis
    by (simp add: new_events_def complete_world_def)
qed

section \<open>The runner: run_complete_pipeline.py\<close>

lemma step0_no_pipeline_event:
  "RunScript ''run_full_pipeline.py'' rc \<notin> set (new_events w (snd (step0 renv w)))"
  by (cases "run_download_script renv (data_dir w)")
     (simp add: step0_def Let_def new_events_def)

lemma step0_trace: "\<exists>evs. trace (snd (step0 renv w)) = trace w @ evs"
  by (cases "run_download_script renv (data_dir w)")
     (simp add: step0_def Let_def)

lemma step0_exit_status: "fst (step0 renv w) = Some c \<Longrightarrow> c = 1"
  by (cases "run_download_script renv (data_dir w)")
     (auto simp: step0_def Let_def sys_exit_def split: if_splits)

lemma sys_exit_exit_code: "0 \<le> rc \<Longrightarrow> rc \<le> 255 \<Longrightarrow> int (sys_exit rc) = rc"
  by (simp add: sys_exit_def)

text \<open>
  Claim C7. A run of the runner in which \<^verbatim>\<open>run_full_pipeline.py\<close> was run and came
  back with the return code \<open>rc\<close> ends with the exit status \<open>rc mod 256\<close>, the status
  of \<^verbatim>\<open>sys.exit(rc)\<close>: for every exit code of the child, which is a number from 0 to
  255, the exit status of the runner is that code itself. The pipeline is run, and its
  return code is the one looked at, whenever step 0 lets the module run on and the script
  exists. When the pipeline script does not exist the runner ends with exit status 1,
  whatever step 0 did.
\<close>

theorem pipeline_exit_code_passes_through:
  "(RunScript ''run_full_pipeline.py'' rc
       \<in> set (new_events w (snd (run_complete_pipeline renv w))) \<longrightarrow>
      fst (run_complete_pipeline renv w) = nat (rc mod 256)
      \<and> (0 \<le> rc \<and> rc \<le> 255 \<longrightarrow> int (fst (run_complete_pipeline renv w)) = rc))
   \<and> (pipeline_script_exists renv
       \<and> fst (step0 renv
                (emits [Print (replicate 70 (CHR ''='')),
                        Print ''BRAIN-TO-TEXT COMPLETE PIPELINE'',
                        Print (replicate 70 (CHR ''=''))] w)) = None \<longrightarrow>
      RunScript ''run_full_pipeline.py''
          (fst (run_pipeline_script renv
                 (data_dir (snd (step0 renv
                    (emits [Print (replicate 70 (CHR ''='')),
                            Print ''BRAIN-TO-TEXT COMPLETE PIPELINE'',
                            Print (replicate 70 (CHR ''=''))] w))))))
        \<in> set (new_events w (snd (run_complete_pipeline renv w))))
   \<and> (\<not> pipeline_script_exists renv \<longrightarrow> fst (run_complete_pipeline renv w) = 1)"
proof -
  let ?w1 = "emits [Print (replicate 70 (CHR ''='')),
                      Print ''BRAIN-TO-TEXT COMPLETE PIPELINE'',
                      Print (replicate 70 (CHR ''=''))] w"
  obtain c w2 where s0: "step0 renv ?w1 = (c, w2)" by (cases "step0 renv ?w1")
  from step0_trace [of renv ?w1] s0 obtain evs where
    t2: "trace w2 = trace ?w1 @ evs" by auto
  have nev: "RunScript ''run_full_pipeline.py'' rc' \<notin> set evs" for rc'
    using step0_no_pipeline_event [of rc' ?w1 renv] s0 t2 by (simp add: new_events_def)
  obtain rcv d where rp: "run_pipeline_script renv (data_dir w2) = (rcv, d)"
    by (cases "run_pipeline_script renv (data_dir w2)")
  have invoked: "RunScript ''run_full_pipeline.py'' rc
       \<in> set (new_events w (snd (run_complete_pipeline renv w))) \<Longrightarrow>
      c = None \<and> pipeline_script_exists renv \<and> rc = rcv"
  proof (cases c)
    case (Some k)
    assume "RunScript ''run_full_pipeline.py'' rc
       \<in> set (new_events w (snd (run_complete_pipeline renv w)))"
    with Some s0 t2 nev show ?thesis
      by (simp add: run_complete_pipeline_def Let_def new_events_def)
  next
    case None
    assume "RunScript ''run_full_pipeline.py'' rc
       \<in> set (new_events w (snd (run_complete_pipeline renv w)))"
    with None s0 t2 nev rp show ?thesis
      by (cases "pipeline_script_exists renv")
         (simp_all add: run_complete_pipeline_def step1_def Let_def new_events_def)
  qed
  have status: "c = None \<Longrightarrow> pipeline_script_exists renv \<Longrightarrow>
      fst (run_complete_pipeline renv w) = sys_exit rcv"
    using s0 rp by (simp add: run_complete_pipeline_def step1_def Let_def)
  have event: "c = None \<Longrightarrow> pipeline_script_exists renv \<Longrightarrow>
      RunScript ''run_full_pipeline.py'' rcv
        \<in> set (new_events w (snd (run_complete_pipeline renv w)))"
    using s0 rp t2 by (simp add: run_complete_pipeline_def step1_def Let_def new_events_def)
  show ?thesis
  proof (intro conjI impI)
    assume i: "RunScript ''run_full_pipeline.py'' rc
       \<in> set (new_events w (snd (run_complete_pipeline renv w)))"
    from invoked [OF i] status
    show e: "fst (run_complete_pipeline renv w) = nat (rc mod 256)"
      by (simp add: sys_exit_def)
    assume "0 \<le> rc \<and> rc \<le> 255"
    with invoked [OF i] status show "int (fst (run_complete_pipeline renv w)) = rc"
      by (simp add: sys_exit_exit_code)
  next
    assume "pipeline_script_exists renv \<and> fst (step0 renv ?w1) = None"
    with s0 rp event show "RunScript ''run_full_pipeline.py''
          (fst (run_pipeline_script renv (data_dir (snd (step0 renv ?w1)))))
        \<in> set (new_events w (snd (run_complete_pipeline renv w)))"
      by simp
  next
    assume ne: "\<not> pipeline_script_exists renv"
    show "fst (run_complete_pipeline renv w) = 1"
    proof (cases c)
      case None
      with s0 ne show ?thesis
        by (simp add: run_complete_pipeline_def step1_def Let_def sys_exit_def)
    next
      case (Some k)
      with s0 have "k = 1" using step0_exit_status [of renv ?w1 k] by simp
      with Some s0 show ?thesis by (simp add: run_complete_pipeline_def Let_def)
    qed
  qed
qed

theorem pipeline_exit_code_passes_through_witness:
  "RunScript ''run_full_pipeline.py'' 7
       \<in> set (new_events complete_world
                (snd (run_complete_pipeline example_runner_env complete_world)))
   \<and> (0::int) \<le> 7 \<and> (7::int) \<le> 255
   \<and> fst (run_pipeline_script example_runner_env (data_dir complete_world)) = 7
   \<and> fst (run_complete_pipeline example_runner_env complete_world) = 7
   \<and> pipeline_script_exists example_runner_env
   \<and> fst (step0 example_runner_env
            (emits [Print (replicate 70 (CHR ''='')),
                    Print ''BRAIN-TO-TEXT COMPLETE PIPELINE'',
                    Print (replicate 70 (CHR ''=''))] complete_world)) = None
   \<and> RunScript ''run_full_pipeline.py'' (- 9)
       \<in> set (new_events complete_world
                (snd (run_complete_pipeline killed_runner_env complete_world)))
   \<and> fst (run_complete_pipeline killed_runner_env complete_world) = 247
   \<and> \<not> pipeline_script_exists (example_runner_env\<lparr>pipeline_script_exists := False\<rparr>)
   \<and> fst (run_complete_pipeline
            (example_runner_env\<lparr>pipeline_script_exists := False\<rparr>) complete_world) = 1"
proof -
  have s0: "step0 example_runner_env
            (emits [Print (replicate 70 (CHR ''='')),
                    Print ''BRAIN-TO-TEXT COMPLETE PIPELINE'',
                    Print (replicate 70 (CHR ''=''))] complete_world) =
        (None,
         \<lparr>data_dir = data_dir complete_world,
          trace = [Print (replicate 70 (CHR ''='')),
                   Print ''BRAIN-TO-TEXT COMPLETE PIPELINE'',
                   Print (replicate 70 (CHR ''='')),
                   Print ([CHR 0x0A] @ ''[STEP 0] Checking for data files...'')]\<rparr>)"
    by (simp add: step0_def example_runner_env_def complete_world_def all_exist_def
          path_exists_def Let_def emit_def emits_def)
  have s0k: "step0 killed_runner_env
            (emits [Print (replicate 70 (CHR ''='')),
                    Print ''BRAIN-TO-TEXT COMPLETE PIPELINE'',
                    Print (replicate 70 (CHR ''=''))] complete_world) =
        (None,
         \<lparr>data_dir = data_dir complete_world,
          trace = [Print (replicate 70 (CHR ''='')),
                   Print ''BRAIN-TO-TEXT COMPLETE PIPELINE'',
                   Print (replicate 70 (CHR ''='')),
                   Print ([CHR 0x0A] @ ''[STEP 0] Checking for data files...'')]\<rparr>)"
    by (simp add: step0_def killed_runner_env_def example_runner_env_def complete_world_def
          all_exist_def path_exists_def Let_def emit_def emits_def)
  have env: "pipeline_script_exists example_runner_env
      \<and> pipeline_script_exists killed_runner_env
      \<and> fst (run_pipeline_script example_runner_env (data_dir complete_world)) = 7
      \<and> fst (run_pipeline_script killed_runner_env (data_dir complete_world)) = - 9
      \<and> \<not> pipeline_script_exists (example_runner_env\<lparr>pipeline_script_exists := False\<rparr>)"
    by (simp add: example_runner_env_def killed_runner_env_def)
  note a = pipeline_exit_code_passes_through [of 7 complete_world example_runner_env]
  note b = pipeline_exit_code_passes_through [of "- 9" complete_world killed_runner_env]
  note c = pipeline_exit_code_passes_through
      [of 7 complete_world "example_runner_env\<lparr>pipeline_script_exists := False\<rparr>"]
  from a s0 env have i7: "RunScript ''run_full_pipeline.py'' 7
       \<in> set (new_events complete_world
                (snd (run_complete_pipeline example_runner_env complete_world)))"
    by simp
  from b s0k env have i9: "RunScript ''run_full_pipeline.py'' (- 9)
       \<in> set (new_events complete_world
                (snd (run_complete_pipeline killed_runner_env complete_world)))"
    by simp
  from a i7 have e7: "fst (run_complete_pipeline example_runner_env complete_world) = 7"
    by simp
  from b i9 have e9: "fst (run_complete_pipeline killed_runner_env complete_world) = 247"
    by simp
  from c env have e1: "fst (run_complete_pipeline
            (example_runner_env\<lparr>pipeline_script_exists := False\<rparr>) complete_world) = 1"
    by simp
  from i7 i9 e7 e9 e1 s0 env show ?thesis by simp
qed

end
